theory Spec2Isabelle
  imports Main "HOL-Library.Char_ord" "HOL-Library.List_Lexorder" "HOL-Library.AList"
begin

unbundle bit_operations_syntax

section \<open>Strings\<close>

text \<open>
  A Go \<open>string\<close> is a byte sequence, here a \<open>char list\<close>, read as UTF-8 by the
  functions of packages \<open>strings\<close> and \<open>unicode/utf8\<close> that work on runes. A rune is
  a code point, an integer.
\<close>

type_synonym rune = int

definition RuneError :: rune where
  "RuneError = 65533"

definition in_range :: "int \<Rightarrow> int \<Rightarrow> int \<Rightarrow> bool" where
  "in_range lo hi b \<longleftrightarrow> lo \<le> b \<and> b \<le> hi"

text \<open>
  \<open>utf8.DecodeRuneInString\<close>: the first rune of a string and its width in bytes. A
  byte that does not start a well-formed shortest encoding is the rune \<open>U+FFFD\<close> of
  width 1.
\<close>

definition DecodeRune :: "string \<Rightarrow> rune \<times> nat" where
  "DecodeRune s =
     (case map of_char (take 4 s) of
        [] \<Rightarrow> (RuneError, 0)
      | b0 # t \<Rightarrow>
          if b0 < 128 then (b0, 1)
          else if in_range 194 223 b0 then
            (case t of
               b1 # _ \<Rightarrow>
                 if in_range 128 191 b1 then ((b0 mod 32) * 64 + b1 mod 64, 2)
                 else (RuneError, 1)
             | _ \<Rightarrow> (RuneError, 1))
          else if in_range 224 239 b0 then
            (case t of
               b1 # b2 # _ \<Rightarrow>
                 if in_range (if b0 = 224 then 160 else 128) (if b0 = 237 then 159 else 191) b1
                    \<and> in_range 128 191 b2
                 then (((b0 mod 16) * 64 + b1 mod 64) * 64 + b2 mod 64, 3)
                 else (RuneError, 1)
             | _ \<Rightarrow> (RuneError, 1))
          else if in_range 240 244 b0 then
            (case t of
               b1 # b2 # b3 # _ \<Rightarrow>
                 if in_range (if b0 = 240 then 144 else 128) (if b0 = 244 then 143 else 191) b1
                    \<and> in_range 128 191 b2 \<and> in_range 128 191 b3
                 then ((((b0 mod 8) * 64 + b1 mod 64) * 64 + b2 mod 64) * 64 + b3 mod 64, 4)
                 else (RuneError, 1)
             | _ \<Rightarrow> (RuneError, 1))
          else (RuneError, 1))"

text \<open>\<open>utf8.AppendRune\<close>: a surrogate or a value above \<open>U+10FFFF\<close> is written as \<open>U+FFFD\<close>.\<close>

definition EncodeRune :: "rune \<Rightarrow> string" where
  "EncodeRune r =
     map char_of
       (if r < 128 then [r]
        else if r < 2048 then [192 + r div 64, 128 + r mod 64]
        else if r > 1114111 \<or> in_range 55296 57343 r then [239, 191, 189]
        else if r < 65536 then [224 + r div 4096, 128 + r div 64 mod 64, 128 + r mod 64]
        else [240 + r div 262144, 128 + r div 4096 mod 64, 128 + r div 64 mod 64, 128 + r mod 64])"

text \<open>The runes of a string as \<open>for _, r := range s\<close> yields them; a width is at least 1.\<close>

fun Runes :: "string \<Rightarrow> rune list" where
  "Runes [] = []"
| "Runes (c # cs) = (case DecodeRune (c # cs) of (r, w) \<Rightarrow> r # Runes (drop (w - 1) cs))"

text \<open>\<open>unicode.IsSpace\<close>.\<close>

definition IsSpace :: "rune \<Rightarrow> bool" where
  "IsSpace r \<longleftrightarrow>
     in_range 9 13 r \<or> r = 32 \<or> r = 133 \<or> r = 160 \<or> r = 5760 \<or> in_range 8192 8202 r \<or>
     r = 8232 \<or> r = 8233 \<or> r = 8239 \<or> r = 8287 \<or> r = 12288"

definition is_digit :: "char \<Rightarrow> bool" where
  "is_digit c \<longleftrightarrow> CHR ''0'' \<le> c \<and> c \<le> CHR ''9''"

text \<open>
  \<open>utf8.DecodeLastRuneInString\<close>: the last rune of a string and its width. The start of
  the rune is looked for among the three bytes before the last one; \<open>rs\<close> is the string
  reversed.
\<close>

definition RuneStart :: "char \<Rightarrow> bool" where
  "RuneStart b \<longleftrightarrow> \<not> in_range 128 191 (of_char b)"

definition DecodeLastRune :: "string \<Rightarrow> rune \<times> nat" where
  "DecodeLastRune s =
     (let rs = rev s in
      case rs of
        [] \<Rightarrow> (RuneError, 0)
      | b # _ \<Rightarrow>
          if (of_char b :: int) < 128 then (of_char b, 1)
          else
            (case find (\<lambda>j. j < length rs \<and> RuneStart (rs ! j)) [1, 2, 3] of
               None \<Rightarrow> (RuneError, 1)
             | Some j \<Rightarrow>
                 (case DecodeRune (rev (take (Suc j) rs)) of
                    (r, sz) \<Rightarrow> if sz = Suc j then (r, sz) else (RuneError, 1))))"

text \<open>
  \<open>strings.TrimSpace\<close> removes the leading and then the trailing white-space runes
  (its ASCII fast path gives the same result).
\<close>

fun TrimLeftSpace :: "string \<Rightarrow> string" where
  "TrimLeftSpace [] = []"
| "TrimLeftSpace (c # cs) =
     (case DecodeRune (c # cs) of
        (r, w) \<Rightarrow> if IsSpace r then TrimLeftSpace (drop (w - 1) cs) else c # cs)"

function TrimRightSpace :: "string \<Rightarrow> string" where
  "TrimRightSpace s =
     (if s = [] then []
      else case DecodeLastRune s of
             (r, w) \<Rightarrow> if IsSpace r then TrimRightSpace (take (length s - Suc (w - 1)) s) else s)"
  by pat_completeness auto
termination
  by (relation "measure length") auto

declare TrimRightSpace.simps [simp del]

definition TrimSpace :: "string \<Rightarrow> string" where
  "TrimSpace s = TrimRightSpace (TrimLeftSpace s)"

text \<open>
  \<open>strings.ToUpper\<close> and \<open>strings.ToLower\<close> map every rune and encode the result: the
  ASCII letters as written here, the other runes by the tables of package \<open>unicode\<close>,
  which are the argument \<open>tbl\<close>. An ill-formed byte is read as \<open>U+FFFD\<close>.
\<close>

definition upper_rune :: "(rune \<Rightarrow> rune) \<Rightarrow> rune \<Rightarrow> rune" where
  "upper_rune tbl r = (if r < 128 then (if in_range 97 122 r then r - 32 else r) else tbl r)"

definition lower_rune :: "(rune \<Rightarrow> rune) \<Rightarrow> rune \<Rightarrow> rune" where
  "lower_rune tbl r = (if r < 128 then (if in_range 65 90 r then r + 32 else r) else tbl r)"

definition ToUpper :: "(rune \<Rightarrow> rune) \<Rightarrow> string \<Rightarrow> string" where
  "ToUpper tbl s = concat (map (\<lambda>r. EncodeRune (upper_rune tbl r)) (Runes s))"

definition ToLower :: "(rune \<Rightarrow> rune) \<Rightarrow> string \<Rightarrow> string" where
  "ToLower tbl s = concat (map (\<lambda>r. EncodeRune (lower_rune tbl r)) (Runes s))"

fun HasPrefix :: "string \<Rightarrow> string \<Rightarrow> bool" where
  "HasPrefix s [] = True"
| "HasPrefix [] (p # ps) = False"
| "HasPrefix (c # cs) (p # ps) = (c = p \<and> HasPrefix cs ps)"

fun Contains :: "string \<Rightarrow> string \<Rightarrow> bool" where
  "Contains [] sub = (sub = [])"
| "Contains (c # cs) sub = (HasPrefix (c # cs) sub \<or> Contains cs sub)"

text \<open>\<open>strings.ReplaceAll\<close> for a one-byte pattern.\<close>

definition ReplaceAll1 :: "string \<Rightarrow> char \<Rightarrow> string \<Rightarrow> string" where
  "ReplaceAll1 s old new = concat (map (\<lambda>c. if c = old then new else [c]) s)"

text \<open>
  \<open>strings.Fields\<close>: the maximal runs of runes that are not white space; \<open>cur\<close> is the
  current run, reversed.
\<close>

function Fields_acc :: "string \<Rightarrow> string \<Rightarrow> string list" where
  "Fields_acc cur [] = (if cur = [] then [] else [rev cur])"
| "Fields_acc cur (c # cs) =
     (case DecodeRune (c # cs) of
        (r, w) \<Rightarrow>
          if IsSpace r then
            (if cur = [] then Fields_acc [] (drop (w - 1) cs)
             else rev cur # Fields_acc [] (drop (w - 1) cs))
          else Fields_acc (rev (take w (c # cs)) @ cur) (drop (w - 1) cs))"
  by pat_completeness auto
termination
  by (relation "measure (\<lambda>(cur, s). length s)") auto

definition Fields :: "string \<Rightarrow> string list" where
  "Fields s = Fields_acc [] s"

fun Join :: "string list \<Rightarrow> string \<Rightarrow> string" where
  "Join [] sep = []"
| "Join [x] sep = x"
| "Join (x # y # ys) sep = x @ sep @ Join (y # ys) sep"

section \<open>Tagger (cccc.go)\<close>

text \<open>\<open>tbl\<close> is the upper-case table of package \<open>unicode\<close> outside ASCII.\<close>

fun ExtractCCCC_loop :: "(rune \<Rightarrow> rune) \<Rightarrow> string \<Rightarrow> string list \<Rightarrow> string" where
  "ExtractCCCC_loop tbl upper [] = ''none''"
| "ExtractCCCC_loop tbl upper (c # codes) =
     (let c' = ToUpper tbl (TrimSpace c) in
      if c' = [] then ExtractCCCC_loop tbl upper codes
      else if Contains upper c' then c'
      else ExtractCCCC_loop tbl upper codes)"

definition ExtractCCCC :: "(rune \<Rightarrow> rune) \<Rightarrow> string \<Rightarrow> string list \<Rightarrow> string" where
  "ExtractCCCC tbl text codes =
     (if length codes = 0 then ''none'' else ExtractCCCC_loop tbl (ToUpper tbl text) codes)"

section \<open>Decoded JSON values\<close>

text \<open>
  What \<open>json.Unmarshal\<close> stores in an \<open>any\<close>: a closed variant. An object keeps its
  members as a list, whose order stands for the order in which Go happens to iterate over
  the map; a theorem about every list covers every iteration order.
\<close>

datatype json =
    JNull
  | JBool bool
  | JNumber int
  | JString string
  | JArray "json list"
  | JObject "(string \<times> json) list"

section \<open>Flattener (flatten.go)\<close>

definition digit_char :: "nat \<Rightarrow> char" where
  "digit_char d = ''0123456789'' ! d"

fun Itoa_nat :: "nat \<Rightarrow> string" where
  "Itoa_nat n = (if n < 10 then [digit_char n] else Itoa_nat (n div 10) @ [digit_char (n mod 10)])"

declare Itoa_nat.simps [simp del]

text \<open>\<open>strconv.Itoa\<close>, also what \<open>%d\<close> prints.\<close>

definition Itoa :: "int \<Rightarrow> string" where
  "Itoa i = (if i < 0 then CHR ''-'' # Itoa_nat (nat (- i)) else Itoa_nat (nat i))"

record FlattenOptions =
  MaxDepth :: int
  MaxKeys :: int

text \<open>
  The output map \<open>map[string]any\<close> is an association list with distinct keys:
  \<open>out[k] = v\<close> is \<open>AList.update k v out\<close> and \<open>len(out)\<close> is its length.
\<close>

type_synonym flat = "(string \<times> json) list"

fun flattenInto :: "flat \<Rightarrow> string \<Rightarrow> json \<Rightarrow> int \<Rightarrow> FlattenOptions \<Rightarrow> flat"
  and flatten_members :: "flat \<Rightarrow> string \<Rightarrow> (string \<times> json) list \<Rightarrow> int \<Rightarrow> FlattenOptions \<Rightarrow> flat"
  and flatten_elems :: "flat \<Rightarrow> string \<Rightarrow> nat \<Rightarrow> json list \<Rightarrow> int \<Rightarrow> FlattenOptions \<Rightarrow> flat"
where
  "flattenInto out prefix v depth opts =
     (if int (length out) \<ge> MaxKeys opts then out
      else if depth > MaxDepth opts then
        (if prefix \<noteq> [] then
           AList.update prefix (JString (''<max_depth:'' @ Itoa (MaxDepth opts) @ ''>'')) out
         else out)
      else (case v of
          JObject kvs \<Rightarrow> flatten_members out prefix kvs depth opts
        | JArray xs \<Rightarrow> flatten_elems out prefix 0 xs depth opts
        | _ \<Rightarrow> (if prefix = [] then AList.update ''value'' v out
                else AList.update prefix v out)))"
| "flatten_members out prefix [] depth opts = out"
| "flatten_members out prefix (kc # rest) depth opts =
     (let key = (if prefix \<noteq> [] then prefix @ ''.'' @ fst kc else fst kc);
          out' = flattenInto out key (snd kc) (depth + 1) opts
      in if int (length out') \<ge> MaxKeys opts then out'
         else flatten_members out' prefix rest depth opts)"
| "flatten_elems out prefix i [] depth opts = out"
| "flatten_elems out prefix i (child # rest) depth opts =
     (let idx = Itoa (int i);
          key = (if prefix \<noteq> [] then prefix @ ''['' @ idx @ '']'' else idx);
          out' = flattenInto out key child (depth + 1) opts
      in if int (length out') \<ge> MaxKeys opts then out'
         else flatten_elems out' prefix (Suc i) rest depth opts)"

definition FlattenJSON :: "json \<Rightarrow> FlattenOptions \<Rightarrow> flat" where
  "FlattenJSON v opts =
     (let opts1 = (if MaxDepth opts \<le> 0 then opts\<lparr>MaxDepth := 16\<rparr> else opts);
          opts2 = (if MaxKeys opts1 \<le> 0 then opts1\<lparr>MaxKeys := 5000\<rparr> else opts1)
      in flattenInto [] [] v 0 opts2)"

section \<open>Structured-data encoder (runner.go)\<close>

text \<open>
  The argument \<open>map[string]string\<close> is an association list read with \<open>map_of\<close>; its
  keys are \<open>remdups (map fst kv)\<close>, in an arbitrary order.
\<close>

type_synonym kvmap = "(string \<times> string) list"

definition escapeSDParam :: "string \<Rightarrow> string" where
  "escapeSDParam v =
     (let v1 = ReplaceAll1 v (CHR 0x5C) [CHR 0x5C, CHR 0x5C];
          v2 = ReplaceAll1 v1 (CHR 0x22) [CHR 0x5C, CHR 0x22];
          v3 = ReplaceAll1 v2 (CHR '']'') [CHR 0x5C, CHR '']''];
          v4 = ReplaceAll1 v3 (CHR 0x0A) '' '';
          v5 = ReplaceAll1 v4 (CHR 0x0D) '' ''
      in v5)"

definition preferredOrder :: "string list" where
  "preferredOrder = [''job'', ''service'', ''env'', ''site'', ''cluster'', ''filename'',
     ''alert_type'', ''alert_level'', ''hash'', ''cccc'', ''replay'', ''deadman'']"

text \<open>What one iteration of either loop writes into the builder.\<close>

definition write_param :: "string \<Rightarrow> string \<Rightarrow> string" where
  "write_param k v = '' '' @ k @ [CHR ''='', CHR 0x22] @ escapeSDParam v @ [CHR 0x22]"

text \<open>The first loop: the builder and the \<open>seen\<close> set are threaded through.\<close>

fun sd_preferred :: "kvmap \<Rightarrow> string list \<Rightarrow> string \<times> string list \<Rightarrow> string \<times> string list" where
  "sd_preferred kv [] (b, seen) = (b, seen)"
| "sd_preferred kv (k # ks) (b, seen) =
     (case map_of kv k of
        None \<Rightarrow> sd_preferred kv ks (b, seen)
      | Some v \<Rightarrow>
          if TrimSpace v = [] then sd_preferred kv ks (b, seen)
          else sd_preferred kv ks (b @ write_param k v, k # seen))"

text \<open>The second loop collects the other keys, in the map's iteration order.\<close>

fun sd_extraKeys :: "kvmap \<Rightarrow> string list \<Rightarrow> string list \<Rightarrow> string list" where
  "sd_extraKeys kv seen [] = []"
| "sd_extraKeys kv seen (k # ks) =
     (if k \<in> set seen then sd_extraKeys kv seen ks
      else case map_of kv k of
        None \<Rightarrow> sd_extraKeys kv seen ks
      | Some v \<Rightarrow> if TrimSpace v = [] then sd_extraKeys kv seen ks
                  else k # sd_extraKeys kv seen ks)"

text \<open>The third loop writes the sorted extra keys; \<open>kv[k]\<close> of a missing key is \<open>""\<close>.\<close>

fun sd_write_extra :: "kvmap \<Rightarrow> string list \<Rightarrow> string \<Rightarrow> string" where
  "sd_write_extra kv [] b = b"
| "sd_write_extra kv (k # ks) b =
     sd_write_extra kv ks (b @ write_param k (case map_of kv k of None \<Rightarrow> [] | Some v \<Rightarrow> v))"

definition buildStructuredData :: "string \<Rightarrow> kvmap \<Rightarrow> string" where
  "buildStructuredData sdID kv =
     (let sdID' = (if sdID = [] then ''cndp'' else sdID);
          b0 = ''['' @ sdID';
          (b1, seen) = sd_preferred kv preferredOrder (b0, []);
          extraKeys = sort (sd_extraKeys kv seen (remdups (map fst kv)));
          b2 = sd_write_extra kv extraKeys b1
      in b2 @ '']'')"

section \<open>Deadlines (runner.go)\<close>

text \<open>
  A \<open>time.Time\<close> is a number of nanoseconds, the zero \<open>time.Time\<close> is \<open>None\<close>; a
  \<open>time.Duration\<close> is a number of nanoseconds. \<open>time.Now()\<close> is the argument \<open>now\<close>.
\<close>

type_synonym time = int
type_synonym duration = int

definition Millisecond :: duration where
  "Millisecond = 1000000"

definition Second :: duration where
  "Second = 1000000000"

definition isDeadlineExceeded :: "time \<Rightarrow> time option \<Rightarrow> bool" where
  "isDeadlineExceeded now deadline = (case deadline of None \<Rightarrow> False | Some d \<Rightarrow> now > d)"

definition remainingTimeout :: "time \<Rightarrow> time option \<Rightarrow> duration \<Rightarrow> duration" where
  "remainingTimeout now deadline fallback =
     (case deadline of
        None \<Rightarrow> fallback
      | Some d \<Rightarrow>
          (let rem = d - now in
           if rem \<le> 0 then 1 * Millisecond
           else if fallback \<le> 0 \<or> rem < fallback then rem
           else fallback))"


section \<open>Normalizer (normalize.go)\<close>

text \<open>
  The eight patterns use three constructs of the regular-expression syntax: a literal
  byte, \<open>\d{m,n}\<close> and an optional group \<open>(...)?\<close>. \<open>rx_match p s\<close> is the length of
  the match of \<open>p\<close> that Go's leftmost-first engine finds at the start of \<open>s\<close>: a greedy
  repetition tries its longest run first, an optional group is tried before it is
  skipped.
\<close>

datatype rx = Lit char | Digits nat nat | Opt "rx list"

fun first_some :: "('a \<Rightarrow> 'b option) \<Rightarrow> 'a list \<Rightarrow> 'b option" where
  "first_some f [] = None"
| "first_some f (x # xs) = (case f x of Some y \<Rightarrow> Some y | None \<Rightarrow> first_some f xs)"

definition digit_counts :: "nat \<Rightarrow> nat \<Rightarrow> string \<Rightarrow> nat list" where
  "digit_counts m n s = rev [m ..< Suc (min n (length (takeWhile is_digit s)))]"

function rx_match :: "rx list \<Rightarrow> string \<Rightarrow> nat option" where
  "rx_match [] s = Some 0"
| "rx_match (Lit c # rs) s =
     (case s of [] \<Rightarrow> None
      | x # xs \<Rightarrow> if x = c then map_option Suc (rx_match rs xs) else None)"
| "rx_match (Digits m n # rs) s =
     first_some (\<lambda>k. map_option ((+) k) (rx_match rs (drop k s))) (digit_counts m n s)"
| "rx_match (Opt g # rs) s =
     (case rx_match (g @ rs) s of Some l \<Rightarrow> Some l | None \<Rightarrow> rx_match rs s)"
  by pat_completeness auto
termination
  by (relation "measure (\<lambda>(rs, s). size_list size rs)") auto

text \<open>
  \<open>re.ReplaceAllString(s, "")\<close>: the matches are found from left to right, each search
  starting where the previous match ended; an empty match removes nothing.
\<close>

function rx_remove_all :: "rx list \<Rightarrow> string \<Rightarrow> string" where
  "rx_remove_all p [] = []"
| "rx_remove_all p (c # cs) =
     (case rx_match p (c # cs) of
        Some (Suc n) \<Rightarrow> rx_remove_all p (drop n cs)
      | _ \<Rightarrow> c # rx_remove_all p cs)"
  by pat_completeness auto
termination
  by (relation "measure (\<lambda>(p, s). length s)") auto

definition rx_date :: "char \<Rightarrow> rx list" where
  "rx_date sep = [Digits 4 4, Lit sep, Digits 2 2, Lit sep, Digits 2 2]"

definition rx_hm :: "rx list" where
  "rx_hm = [Digits 2 2, Lit CHR '':'', Digits 2 2]"

definition rx_hms :: "rx list" where
  "rx_hms = rx_hm @ [Lit CHR '':'', Digits 2 2]"

definition rx_frac :: "rx list" where
  "rx_frac = [Lit CHR ''.'', Digits 3 6]"

definition timestampPatterns :: "rx list list" where
  "timestampPatterns =
    [rx_date CHR ''-'' @ [Lit CHR '' ''] @ rx_hms,
     rx_date CHR ''-'' @ [Lit CHR ''T''] @ rx_hms,
     rx_date CHR ''-'' @ [Lit CHR ''T''] @ rx_hm,
     rx_date CHR ''-'' @ [Lit CHR ''T''] @ rx_hms @ rx_frac,
     rx_date CHR ''-'' @ [Lit CHR '' ''] @ rx_hms @ rx_frac,
     rx_date CHR ''.'' @ [Lit CHR ''T''] @ rx_hms @ [Opt rx_frac],
     rx_date CHR ''/'' @ [Lit CHR '' ''] @ rx_hm,
     [Digits 4 4, Lit CHR ''-'', Digits 1 2, Lit CHR ''-'', Digits 1 2, Lit CHR '' '',
      Digits 1 2, Lit CHR '':'', Digits 1 2, Lit CHR '':'', Digits 1 2]]"

definition NormalizeText :: "string \<Rightarrow> string" where
  "NormalizeText input =
     (let s1 = fold rx_remove_all timestampPatterns input;
          s2 = TrimSpace s1
      in Join (Fields s2) '' '')"

section \<open>SHA-256 (crypto/sha256) and the fingerprinter\<close>

text \<open>
  The library's SHA-256, on 32-bit words written as natural numbers below \<open>2^32\<close> with
  the wrap-around of every addition written out.
\<close>

type_synonym u32 = nat

definition add32 :: "u32 \<Rightarrow> u32 \<Rightarrow> u32" where
  "add32 a b = (a + b) mod 4294967296"

definition not32 :: "u32 \<Rightarrow> u32" where
  "not32 a = 4294967295 - a"

definition rotr :: "nat \<Rightarrow> u32 \<Rightarrow> u32" where
  "rotr n x = x div 2 ^ n + (x mod 2 ^ n) * 2 ^ (32 - n)"

definition shr :: "nat \<Rightarrow> u32 \<Rightarrow> u32" where
  "shr n x = x div 2 ^ n"

definition sha_K :: "u32 list" where
  "sha_K =
    [1116352408, 1899447441, 3049323471, 3921009573, 961987163, 1508970993,
     2453635748, 2870763221, 3624381080, 310598401, 607225278, 1426881987,
     1925078388, 2162078206, 2614888103, 3248222580, 3835390401, 4022224774,
     264347078, 604807628, 770255983, 1249150122, 1555081692, 1996064986,
     2554220882, 2821834349, 2952996808, 3210313671, 3336571891, 3584528711,
     113926993, 338241895, 666307205, 773529912, 1294757372, 1396182291,
     1695183700, 1986661051, 2177026350, 2456956037, 2730485921, 2820302411,
     3259730800, 3345764771, 3516065817, 3600352804, 4094571909, 275423344,
     430227734, 506948616, 659060556, 883997877, 958139571, 1322822218,
     1537002063, 1747873779, 1955562222, 2024104815, 2227730452, 2361852424,
     2428436474, 2756734187, 3204031479, 3329325298]"

definition sha_H0 :: "u32 list" where
  "sha_H0 = [1779033703, 3144134277, 1013904242, 2773480762,
             1359893119, 2600822924, 528734635, 1541459225]"


text \<open>Padding: the byte \<open>0x80\<close>, zeros up to 56 modulo 64, the bit length on 8 bytes.\<close>

definition sha_pad :: "nat list \<Rightarrow> nat list" where
  "sha_pad bs =
     (let l = length bs; n = 8 * l
      in bs @ [128] @ replicate ((119 - l mod 64) mod 64) 0 @
         [n div 72057594037927936 mod 256, n div 281474976710656 mod 256,
          n div 1099511627776 mod 256, n div 4294967296 mod 256,
          n div 16777216 mod 256, n div 65536 mod 256, n div 256 mod 256, n mod 256])"

fun be_words :: "nat list \<Rightarrow> u32 list" where
  "be_words (a # b # c # d # rest) =
     (((a * 256 + b) * 256 + c) * 256 + d) # be_words rest"
| "be_words _ = []"

fun sha_round :: "u32 list \<Rightarrow> u32 \<times> u32 \<Rightarrow> u32 list" where
  "sha_round [a, b, c, d, e, f, g, h] (k, w) =
     (let S1 = rotr 6 e XOR rotr 11 e XOR rotr 25 e;
          ch = (e AND f) XOR (not32 e AND g);
          t1 = add32 (add32 (add32 (add32 h S1) ch) k) w;
          S0 = rotr 2 a XOR rotr 13 a XOR rotr 22 a;
          mj = (a AND b) XOR (a AND c) XOR (b AND c);
          t2 = add32 S0 mj
      in [add32 t1 t2, a, b, c, add32 d t1, e, f, g])"
| "sha_round st kw = st"

text \<open>
  The sixty-four rounds, one per constant. The message schedule is kept as the sixteen
  words from the current one on; each round appends the word sixteen places ahead.
\<close>

definition sha_next_w :: "u32 \<Rightarrow> u32 \<Rightarrow> u32 \<Rightarrow> u32 \<Rightarrow> u32" where
  "sha_next_w w0 w1 w9 w14 =
     (let s0 = rotr 7 w1 XOR rotr 18 w1 XOR shr 3 w1;
          s1 = rotr 17 w14 XOR rotr 19 w14 XOR shr 10 w14
      in add32 (add32 (add32 w0 s0) w9) s1)"

fun sha_rounds :: "u32 list \<Rightarrow> u32 list \<Rightarrow> u32 list \<Rightarrow> u32 list" where
  "sha_rounds [] w st = st"
| "sha_rounds (k # ks) [w0, w1, w2, w3, w4, w5, w6, w7, w8, w9, w10, w11, w12, w13, w14, w15] st =
     sha_rounds ks
       [w1, w2, w3, w4, w5, w6, w7, w8, w9, w10, w11, w12, w13, w14, w15, sha_next_w w0 w1 w9 w14]
       (sha_round st (k, w0))"
| "sha_rounds (k # ks) w st = st"

definition sha_block :: "u32 list \<Rightarrow> nat list \<Rightarrow> u32 list" where
  "sha_block hs blk = map2 add32 hs (sha_rounds sha_K (be_words blk) hs)"

function sha_blocks :: "u32 list \<Rightarrow> nat list \<Rightarrow> u32 list" where
  "sha_blocks hs bs =
     (if length bs < 64 then hs else sha_blocks (sha_block hs (take 64 bs)) (drop 64 bs))"
  by pat_completeness auto
termination
  by (relation "measure (\<lambda>(hs, bs). length bs)") auto

declare sha_blocks.simps [simp del]

definition hex_digit :: "nat \<Rightarrow> char" where
  "hex_digit d = ''0123456789abcdef'' ! d"

definition hex_word :: "u32 \<Rightarrow> string" where
  "hex_word w = map (\<lambda>d. hex_digit (w div d mod 16))
     [268435456, 16777216, 1048576, 65536, 4096, 256, 16, 1]"

text \<open>\<open>hex.EncodeToString(sha256.Sum256([]byte(s)))\<close>: 64 lower-case hex digits.\<close>

definition sha256_hex :: "string \<Rightarrow> string" where
  "sha256_hex s = concat (map hex_word (sha_blocks sha_H0 (sha_pad (map of_char s))))"

text \<open>
  The digest function is a parameter, so that the runner can be read with any digest;
  the fingerprinter of the program is \<open>HashNormalized sha256_hex\<close>.
\<close>

definition HashNormalized :: "(string \<Rightarrow> string) \<Rightarrow> string \<Rightarrow> int \<Rightarrow> string" where
  "HashNormalized sha normalized hexLen =
     (let full = sha normalized
      in if hexLen \<le> 0 \<or> hexLen \<ge> int (length full) then full
         else take (nat hexLen) full)"


section \<open>Ledgers (models.go)\<close>

record ProcessedFile =
  PF_ID :: nat
  Path :: string
  SHA256 :: string
  SizeBytes :: int
  ModUnixNano :: int
  ProcessedAt :: time
  AllSent :: bool
  Deleted :: bool
  DeletedAt :: "time option"
  LastError :: string

record SpoolEvent =
  ID :: nat
  IngestedAt :: time
  SourcePath :: string
  SourceType :: string
  AlertType :: string
  AlertLevel :: string
  CCCC :: string
  EventIndex :: int
  FileDigestSHA256 :: string
  RawContent :: string
  EventJSON :: string
  FlatJSON :: string
  Normalized :: string
  ContentHash :: string
  SentSyslog :: bool
  SendError :: string
  SentAt :: "time option"
  ArchivedAt :: time

text \<open>
  One store file: the two tables, each in order of insertion. A new row gets the next
  primary key; no row is ever deleted.
\<close>

record db =
  files :: "ProcessedFile list"
  events :: "SpoolEvent list"

definition empty_db :: db where
  "empty_db = \<lparr>files = [], events = []\<rparr>"

section \<open>Configuration and the world around the runner\<close>

record InputSpec =
  Glob :: string
  in_AlertType :: string
  ErrorDir :: string

record RunnerConfig =
  DBPath :: string
  DBFolder :: string
  DBPrefix :: string
  JobLabel :: string
  Debug :: bool
  InputGlobs :: "string list"
  Inputs :: "InputSpec list"
  SyslogAddr :: string
  ServiceLabel :: string
  HashHexLen :: int
  CCCCEnabled :: bool
  CCCCCodes :: "string list"
  DeleteAfterSend :: bool
  Timeout :: duration
  DeadmanToken :: string
  ReplayFrom :: "time option"
  FixedLabels :: kvmap

text \<open>
  The runner: its configuration, the path of the store it has open (\<open>None\<close> for a nil
  handle) and the key of that store. The sender is part of the environment below.
\<close>

record Runner =
  cfg :: RunnerConfig
  db :: "string option"
  dbKey :: string

record runStats =
  FilesIngested :: int
  EventsNew :: int
  EventsSentOK :: int
  EventsSentErr :: int
  EventsReplayOK :: int
  EventsReplayErr :: int
  FilesDeleted :: int

definition stats0 :: runStats where
  "stats0 = \<lparr>FilesIngested = 0, EventsNew = 0, EventsSentOK = 0, EventsSentErr = 0,
     EventsReplayOK = 0, EventsReplayErr = 0, FilesDeleted = 0\<rparr>"

text \<open>
  The body of a message is the JSON encoding of a map; the model keeps the map: the
  four members of an event message, or the members of the heartbeat. The lag statistics
  (\<open>computeLag\<close>, \<open>MaxLag\<close>, \<open>max_lag_ms\<close>) and the debug log, which nothing else
  reads, are left out.
\<close>

record deadman_msg =
  dm_deadman :: string
  dm_status :: string
  dm_error :: string
  dm_started_at :: time
  dm_ended_at :: time
  dm_stats :: runStats

datatype message =
    EventPayload string int string string
  | DeadmanPayload deadman_msg

text \<open>One call of \<open>SendRFC5424Timeout\<close>, as the test double of the repository logs it.\<close>

record call =
  appName :: string
  structuredData :: string
  msg :: message
  timeoutArgument :: duration

datatype fnode = Dir | File string int bool

text \<open>
  A file is \<open>File content mtime readable\<close>. The world is the input file tree, the store
  files (kept apart from the tree: no input pattern is taken to match a store file), the
  clock and the log of the calls received by the sender.
\<close>

record world =
  fs :: "string \<rightharpoonup> fnode"
  stores :: "string \<rightharpoonup> db"
  clock :: time
  calls :: "call list"

text \<open>
  What the program gets from outside: the outcome (\<open>None\<close> for a delivery, or the error
  text) and the duration of the n-th send; glob expansion over the existing paths;
  the JSON codec and \<open>fmt.Sprint\<close>; the case tables of package \<open>unicode\<close> outside ASCII;
  the digest of a byte string; the calendar (year and
  month of an instant, in local time and in UTC); whether a store can be opened at a
  path. Time passes during sends only.
\<close>

record env =
  send_result :: "nat \<Rightarrow> call \<Rightarrow> string option"
  send_elapsed :: "nat \<Rightarrow> duration"
  glob :: "(string \<Rightarrow> bool) \<Rightarrow> string \<Rightarrow> string + string list"
  json_decode :: "string \<Rightarrow> string + json"
  json_encode :: "json \<Rightarrow> string option"
  sprint :: "json \<Rightarrow> string"
  unicode_upper :: "rune \<Rightarrow> rune"
  unicode_lower :: "rune \<Rightarrow> rune"
  sha256 :: "string \<Rightarrow> string"
  period_local :: "time \<Rightarrow> nat \<times> nat"
  period_utc :: "time \<Rightarrow> nat \<times> nat"
  can_open :: "string \<Rightarrow> string option"

definition syslog_send :: "env \<Rightarrow> call \<Rightarrow> world \<Rightarrow> string option \<times> world" where
  "syslog_send e c w =
     (let n = length (calls w)
      in (send_result e n c, w\<lparr>calls := calls w @ [c], clock := clock w + send_elapsed e n\<rparr>))"

section \<open>Paths (path/filepath, on cleaned slash-separated paths)\<close>

definition Base :: "string \<Rightarrow> string" where
  "Base p = (if p = [] then ''.'' else rev (takeWhile (\<lambda>c. c \<noteq> CHR ''/'') (rev p)))"

definition Ext :: "string \<Rightarrow> string" where
  "Ext p = (let b = Base p in
            if CHR ''.'' \<in> set b then CHR ''.'' # rev (takeWhile (\<lambda>c. c \<noteq> CHR ''.'') (rev b))
            else [])"

definition PathJoin :: "string \<Rightarrow> string \<Rightarrow> string" where
  "PathJoin d n = (if d = [] then n else if n = [] then d else d @ ''/'' @ n)"

definition HasSuffix :: "string \<Rightarrow> string \<Rightarrow> bool" where
  "HasSuffix s suf = HasPrefix (rev s) (rev suf)"

definition TrimPrefix :: "string \<Rightarrow> string \<Rightarrow> string" where
  "TrimPrefix s pre = (if HasPrefix s pre then drop (length pre) s else s)"

definition TrimSuffix :: "string \<Rightarrow> string \<Rightarrow> string" where
  "TrimSuffix s suf = (if HasSuffix s suf then take (length s - length suf) s else s)"

section \<open>Alert level and event construction\<close>

definition NormalizeAlertLevel :: "(rune \<Rightarrow> rune) \<Rightarrow> string \<Rightarrow> string" where
  "NormalizeAlertLevel tbl v =
     (let s = ToLower tbl (TrimSpace v) in
      if s \<in> set [''error'', ''critical'', ''2'', ''3'', ''4'', ''5''] then ''critical''
      else if s \<in> set [''warn'', ''warning'', ''1''] then ''warning''
      else ''unknown'')"

definition level_by_ext :: "(rune \<Rightarrow> rune) \<Rightarrow> string \<Rightarrow> string" where
  "level_by_ext tbl sourcePath =
     (let ext = ToLower tbl (Ext sourcePath) in
      if ext = ''.warn'' then ''warning''
      else if ext = ''.alarm'' then ''critical''
      else ''unknown'')"

definition ExtractAlertLevel :: "env \<Rightarrow> json \<Rightarrow> string \<Rightarrow> string" where
  "ExtractAlertLevel e item sourcePath =
     (case item of
        JObject m \<Rightarrow>
          (case first_some (map_of m) [''status'', ''level'', ''severity''] of
             Some v \<Rightarrow> NormalizeAlertLevel (unicode_lower e) (sprint e v)
           | None \<Rightarrow> level_by_ext (unicode_lower e) sourcePath)
      | _ \<Rightarrow> level_by_ext (unicode_lower e) sourcePath)"

definition marshal_text :: "env \<Rightarrow> json \<Rightarrow> string" where
  "marshal_text e item = (case json_encode e item of None \<Rightarrow> [] | Some b \<Rightarrow> b)"

definition extractKeyText :: "env \<Rightarrow> json \<Rightarrow> string" where
  "extractKeyText e item =
     (case item of
        JObject m \<Rightarrow>
          (case map_of m ''detail'' of
             Some (JString s) \<Rightarrow> s
           | _ \<Rightarrow> (case map_of m ''description'' of
                      Some (JString s) \<Rightarrow> s
                    | _ \<Rightarrow> marshal_text e item))
      | _ \<Rightarrow> marshal_text e item)"

definition inferSourceType :: "(rune \<Rightarrow> rune) \<Rightarrow> string \<Rightarrow> string" where
  "inferSourceType tbl path =
     (let ext = ToLower tbl (Ext path) in
      if ext = ''.warn'' then ''warn''
      else if ext = ''.alarm'' then ''alarm''
      else TrimPrefix ext ''.'')"

definition inferAlertType :: "(rune \<Rightarrow> rune) \<Rightarrow> string \<Rightarrow> string" where
  "inferAlertType tbl path =
     (let p = ToLower tbl path in
      if Contains p ''/dev/'' then ''dev''
      else if Contains p ''/iec/'' then ''iec''
      else if Contains p ''/business/'' then ''business''
      else if Contains p ''/general/'' then ''general''
      else if ToLower tbl (Ext path) = ''.alarm'' then ''dev''
      else ''unknown'')"

definition buildEvent ::
  "env \<Rightarrow> RunnerConfig \<Rightarrow> json \<Rightarrow> string \<Rightarrow> string \<Rightarrow> string \<Rightarrow> string \<Rightarrow> string \<Rightarrow> int \<Rightarrow> time
     \<Rightarrow> string + SpoolEvent" where
  "buildEvent e c item raw sourcePath sourceType alertType fileSHA idx now =
     (case json_encode e item of
        None \<Rightarrow> Inl ''json: unsupported value''
      | Some eventJSON \<Rightarrow>
          (let flat = FlattenJSON item \<lparr>MaxDepth = 0, MaxKeys = 0\<rparr> in
           case json_encode e (JObject flat) of
             None \<Rightarrow> Inl ''json: unsupported value''
           | Some flatJSON \<Rightarrow>
               (let keyText = extractKeyText e item;
                    normalized = NormalizeText keyText;
                    hash = HashNormalized (sha256 e) normalized (HashHexLen c);
                    cccc = (if length (CCCCCodes c) > 0
                            then ExtractCCCC (unicode_upper e) keyText (CCCCCodes c)
                            else ''none'');
                    alertLevel = ExtractAlertLevel e item sourcePath
                in Inr \<lparr>ID = 0, IngestedAt = now, SourcePath = sourcePath,
                     SourceType = sourceType, AlertType = alertType, AlertLevel = alertLevel,
                     CCCC = cccc, EventIndex = idx, FileDigestSHA256 = fileSHA,
                     RawContent = raw, EventJSON = eventJSON, FlatJSON = flatJSON,
                     Normalized = normalized, ContentHash = hash, SentSyslog = False,
                     SendError = [], SentAt = None, ArchivedAt = now\<rparr>)))"

definition newErrorEvent ::
  "string \<Rightarrow> string \<Rightarrow> string \<Rightarrow> string \<Rightarrow> string \<Rightarrow> string \<Rightarrow> time \<Rightarrow> SpoolEvent" where
  "newErrorEvent sourcePath sourceType alertType fileSHA raw err now =
     \<lparr>ID = 0, IngestedAt = now, SourcePath = sourcePath, SourceType = sourceType,
      AlertType = alertType, AlertLevel = ''unknown'', CCCC = [], EventIndex = 0,
      FileDigestSHA256 = fileSHA, RawContent = raw, EventJSON = ''{}'', FlatJSON = ''{}'',
      Normalized = [], ContentHash = [], SentSyslog = False,
      SendError = ''decode/build error: '' @ err, SentAt = None, ArchivedAt = now\<rparr>"

fun toEvents_items ::
  "env \<Rightarrow> RunnerConfig \<Rightarrow> json list \<Rightarrow> nat \<Rightarrow> string \<Rightarrow> string \<Rightarrow> string \<Rightarrow> string \<Rightarrow> string \<Rightarrow> time
     \<Rightarrow> SpoolEvent list" where
  "toEvents_items e c [] i raw sourcePath sourceType alertType fileSHA now = []"
| "toEvents_items e c (item # items) i raw sourcePath sourceType alertType fileSHA now =
     (case buildEvent e c item raw sourcePath sourceType alertType fileSHA (int i) now of
        Inl err \<Rightarrow> newErrorEvent sourcePath sourceType alertType fileSHA raw err now
      | Inr ev \<Rightarrow> ev)
     # toEvents_items e c items (Suc i) raw sourcePath sourceType alertType fileSHA now"

definition toEvents ::
  "env \<Rightarrow> RunnerConfig \<Rightarrow> json \<Rightarrow> string \<Rightarrow> string \<Rightarrow> string \<Rightarrow> string \<Rightarrow> string \<Rightarrow> time
     \<Rightarrow> string + SpoolEvent list" where
  "toEvents e c decoded raw sourcePath sourceType alertType fileSHA now =
     (case decoded of
        JArray v \<Rightarrow> Inr (toEvents_items e c v 0 raw sourcePath sourceType alertType fileSHA now)
      | _ \<Rightarrow>
          (case buildEvent e c decoded raw sourcePath sourceType alertType fileSHA 0 now of
             Inl err \<Rightarrow> Inl err
           | Inr ev \<Rightarrow> Inr [ev]))"


section \<open>Sending one event\<close>

definition label :: "RunnerConfig \<Rightarrow> string \<Rightarrow> string" where
  "label c k = (case map_of (FixedLabels c) k of None \<Rightarrow> [] | Some v \<Rightarrow> v)"

text \<open>
  The map literal that the three sending loops pass to \<open>buildStructuredData\<close>; replay
  adds the last entry.
\<close>

definition event_kv :: "RunnerConfig \<Rightarrow> string \<Rightarrow> SpoolEvent \<Rightarrow> bool \<Rightarrow> kvmap" where
  "event_kv c path ev replay =
     [(''job'', JobLabel c), (''service'', ServiceLabel c), (''env'', label c ''env''),
      (''site'', label c ''site''), (''cluster'', label c ''cluster''),
      (''filename'', Base path), (''alert_type'', AlertType ev),
      (''alert_level'', if TrimSpace (AlertLevel ev) = [] then ''unknown'' else AlertLevel ev),
      (''hash'', ContentHash ev), (''cccc'', CCCC ev)]
     @ (if replay then [(''replay'', ''true'')] else [])"

definition event_call :: "RunnerConfig \<Rightarrow> string \<Rightarrow> SpoolEvent \<Rightarrow> bool \<Rightarrow> duration \<Rightarrow> call" where
  "event_call c path ev replay t =
     \<lparr>appName = ''alert-spooler'',
      structuredData = buildStructuredData ''cndp'' (event_kv c path ev replay),
      msg = EventPayload (SourcePath ev) (EventIndex ev) (EventJSON ev) (FlatJSON ev),
      timeoutArgument = t\<rparr>"

section \<open>Store operations\<close>

definition the_db :: "world \<Rightarrow> string \<Rightarrow> db" where
  "the_db w dbp = (case stores w dbp of None \<Rightarrow> empty_db | Some d \<Rightarrow> d)"

definition store_update :: "string \<Rightarrow> (db \<Rightarrow> db) \<Rightarrow> world \<Rightarrow> world" where
  "store_update dbp f w = w\<lparr>stores := (stores w)(dbp \<mapsto> f (the_db w dbp))\<rparr>"

fun assign_ids :: "nat \<Rightarrow> SpoolEvent list \<Rightarrow> SpoolEvent list" where
  "assign_ids n [] = []"
| "assign_ids n (ev # evs) = ev\<lparr>ID := Suc n\<rparr> # assign_ids (Suc n) evs"

text \<open>
  The transaction of \<open>archiveAndMarkFile\<close>: all the events and the file row, or nothing.
  Creating an empty slice is an error of the store library, and so is a second row with
  the same path and digest (the unique index of \<open>ProcessedFile\<close>).
\<close>

definition archive_tx :: "db \<Rightarrow> SpoolEvent list \<Rightarrow> ProcessedFile \<Rightarrow> string + db" where
  "archive_tx d evs pf =
     (if evs = [] then Inl ''empty slice found''
      else if \<exists>x \<in> set (files d). Path x = Path pf \<and> SHA256 x = SHA256 pf
        then Inl ''UNIQUE constraint failed: processed_files.path, processed_files.sha256''
      else Inr (d\<lparr>events := events d @ assign_ids (length (events d)) evs,
                  files := files d @ [pf\<lparr>PF_ID := Suc (length (files d))\<rparr>]\<rparr>))"

definition update_files :: "(ProcessedFile \<Rightarrow> bool) \<Rightarrow> (ProcessedFile \<Rightarrow> ProcessedFile) \<Rightarrow> db \<Rightarrow> db" where
  "update_files sel f d = d\<lparr>files := map (\<lambda>x. if sel x then f x else x) (files d)\<rparr>"

definition update_events :: "(SpoolEvent \<Rightarrow> bool) \<Rightarrow> (SpoolEvent \<Rightarrow> SpoolEvent) \<Rightarrow> db \<Rightarrow> db" where
  "update_events sel f d = d\<lparr>events := map (\<lambda>x. if sel x then f x else x) (events d)\<rparr>"

definition by_path_sha :: "string \<Rightarrow> string \<Rightarrow> ProcessedFile \<Rightarrow> bool" where
  "by_path_sha path sha x \<longleftrightarrow> Path x = path \<and> SHA256 x = sha"

section \<open>Moving and deleting files\<close>

definition MoveFileToDir :: "string \<Rightarrow> string \<Rightarrow> world \<Rightarrow> (string + string) \<times> world" where
  "MoveFileToDir srcPath dstDir w =
     (if TrimSpace dstDir = [] then (Inl ''dstDir is empty'', w)
      else
        (let base = Base srcPath;
             dst0 = PathJoin dstDir base;
             dstPath =
               (if fs w dst0 \<noteq> None then
                  (let ext = Ext base; name = TrimSuffix base ext
                   in PathJoin dstDir (name @ ''-'' @ Itoa (clock w) @ ext))
                else dst0)
         in case fs w srcPath of
              None \<Rightarrow> (Inl ''no such file or directory'', w)
            | Some node \<Rightarrow> (Inr dstPath, w\<lparr>fs := ((fs w)(srcPath := None))(dstPath \<mapsto> node)\<rparr>)))"

text \<open>\<open>os.Remove\<close> succeeds on a file.\<close>

definition tryDeleteProcessedFile :: "string \<Rightarrow> string \<Rightarrow> string \<Rightarrow> world \<Rightarrow> string option \<times> world" where
  "tryDeleteProcessedFile dbp path sha w =
     (case fs w path of
        Some (File content mtime readable) \<Rightarrow>
          (None,
           store_update dbp (update_files (by_path_sha path sha)
               (\<lambda>x. x\<lparr>Deleted := True, DeletedAt := Some (clock w), LastError := []\<rparr>))
             (w\<lparr>fs := (fs w)(path := None)\<rparr>))
      | _ \<Rightarrow>
          (let err = ''remove '' @ path @ '': no such file or directory''
           in (Some err,
               store_update dbp (update_files (by_path_sha path sha)
                 (\<lambda>x. x\<lparr>LastError := ''delete failed: '' @ err\<rparr>)) w)))"

section \<open>Archive and first delivery of one file\<close>

text \<open>One iteration of the sending loop of \<open>archiveAndMarkFile\<close>.\<close>

definition send_new_one ::
  "env \<Rightarrow> RunnerConfig \<Rightarrow> string \<Rightarrow> time option \<Rightarrow> SpoolEvent \<Rightarrow> world \<Rightarrow> runStats
     \<Rightarrow> SpoolEvent \<times> bool \<times> world \<times> runStats" where
  "send_new_one e c path deadline ev w st =
     (let st1 = st\<lparr>EventsNew := EventsNew st + 1\<rparr>;
          t = remainingTimeout (clock w) deadline (3 * Second);
          (err, w1) = syslog_send e (event_call c path ev False t) w
      in case err of
           Some m \<Rightarrow>
             (ev\<lparr>SentSyslog := False, SendError := m\<rparr>, False, w1,
              st1\<lparr>EventsSentErr := EventsSentErr st1 + 1\<rparr>)
         | None \<Rightarrow>
             (ev\<lparr>SentSyslog := True, SentAt := Some (clock w1)\<rparr>, True, w1,
              st1\<lparr>EventsSentOK := EventsSentOK st1 + 1\<rparr>))"

fun send_new_events ::
  "env \<Rightarrow> RunnerConfig \<Rightarrow> string \<Rightarrow> time option \<Rightarrow> SpoolEvent list \<Rightarrow> world \<Rightarrow> runStats
     \<Rightarrow> SpoolEvent list \<times> bool \<times> world \<times> runStats" where
  "send_new_events e c path deadline [] w st = ([], True, w, st)"
| "send_new_events e c path deadline (ev # evs) w st =
     (case send_new_one e c path deadline ev w st of
        (ev', ok, w1, st1) \<Rightarrow>
          (case send_new_events e c path deadline evs w1 st1 of
             (evs', allSent, w2, st2) \<Rightarrow> (ev' # evs', ok \<and> allSent, w2, st2)))"

definition archiveAndMarkFile ::
  "env \<Rightarrow> RunnerConfig \<Rightarrow> string \<Rightarrow> string \<Rightarrow> string \<Rightarrow> int \<Rightarrow> int \<Rightarrow> SpoolEvent list \<Rightarrow> time option
     \<Rightarrow> string \<Rightarrow> bool \<Rightarrow> world \<Rightarrow> runStats \<Rightarrow> string option \<times> world \<times> runStats" where
  "archiveAndMarkFile e c dbp path sha sz mtime evs deadline errorDir moveToErrorDir w st =
     (let (evs', allSent, w1, st1) = send_new_events e c path deadline evs w st;
          pf = \<lparr>PF_ID = 0, Path = path, SHA256 = sha, SizeBytes = sz, ModUnixNano = mtime,
                ProcessedAt = clock w1, AllSent = allSent, Deleted = False, DeletedAt = None,
                LastError = []\<rparr>
      in case archive_tx (the_db w1 dbp) evs' pf of
           Inl err \<Rightarrow>
             (if moveToErrorDir \<and> TrimSpace errorDir \<noteq> []
              then (Some err, snd (MoveFileToDir path errorDir w1), st1)
              else (Some err, w1, st1))
         | Inr d \<Rightarrow>
             (let w2 = w1\<lparr>stores := (stores w1)(dbp \<mapsto> d)\<rparr>;
                  st2 = st1\<lparr>FilesIngested := FilesIngested st1 + 1\<rparr>
              in if moveToErrorDir \<and> TrimSpace errorDir \<noteq> [] then
                   (case MoveFileToDir path errorDir w2 of
                      (Inl mvErr, w3) \<Rightarrow>
                        (Some mvErr,
                         store_update dbp (update_files (by_path_sha path sha)
                           (\<lambda>x. x\<lparr>LastError := ''move to error_dir failed: '' @ mvErr\<rparr>)) w3,
                         st2)
                    | (Inr dst, w3) \<Rightarrow>
                        (None,
                         store_update dbp (update_files (by_path_sha path sha)
                           (\<lambda>x. x\<lparr>Deleted := True, DeletedAt := Some (clock w3),
                                  LastError := ''moved to error_dir: '' @ dst\<rparr>)) w3,
                         st2\<lparr>FilesDeleted := FilesDeleted st2 + 1\<rparr>))
                 else if DeleteAfterSend c \<and> allSent then
                   (case tryDeleteProcessedFile dbp path sha w2 of
                      (Some remErr, w3) \<Rightarrow> (Some remErr, w3, st2)
                    | (None, w3) \<Rightarrow> (None, w3, st2\<lparr>FilesDeleted := FilesDeleted st2 + 1\<rparr>))
                 else (None, w2, st2)))"

definition isAlreadyProcessed :: "db \<Rightarrow> string \<Rightarrow> string \<Rightarrow> bool" where
  "isAlreadyProcessed d path sha \<longleftrightarrow> (\<exists>x \<in> set (files d). by_path_sha path sha x)"

definition ingestFile ::
  "env \<Rightarrow> RunnerConfig \<Rightarrow> string \<Rightarrow> string \<Rightarrow> string \<Rightarrow> string \<Rightarrow> time option \<Rightarrow> world \<Rightarrow> runStats
     \<Rightarrow> string option \<times> world \<times> runStats" where
  "ingestFile e c dbp path forcedAlertType errorDir deadline w st =
     (case fs w path of
        None \<Rightarrow> (Some (''stat '' @ path @ '': no such file or directory''), w, st)
      | Some Dir \<Rightarrow> (None, w, st)
      | Some (File content mtime readable) \<Rightarrow>
          if int (length content) \<le> 0 then (None, w, st)
          else if \<not> readable then
            (Some (''open '' @ path @ '': permission denied''),
             (if TrimSpace errorDir \<noteq> [] then snd (MoveFileToDir path errorDir w) else w), st)
          else
            (let fileSHAHex = sha256 e content in
             if isAlreadyProcessed (the_db w dbp) path fileSHAHex then (None, w, st)
             else
               (let alertType = (if TrimSpace forcedAlertType = [] then inferAlertType (unicode_lower e) path
                                 else TrimSpace forcedAlertType);
                    sourceType = inferSourceType (unicode_lower e) path;
                    sz = int (length content)
                in case json_decode e content of
                     Inl err \<Rightarrow>
                       archiveAndMarkFile e c dbp path fileSHAHex sz mtime
                         [newErrorEvent path sourceType alertType fileSHAHex content err (clock w)]
                         deadline errorDir True w st
                   | Inr decoded \<Rightarrow>
                       (case toEvents e c decoded content path sourceType alertType fileSHAHex (clock w) of
                          Inl err \<Rightarrow>
                            archiveAndMarkFile e c dbp path fileSHAHex sz mtime
                              [newErrorEvent path sourceType alertType fileSHAHex content err (clock w)]
                              deadline errorDir True w st
                        | Inr evs \<Rightarrow>
                            archiveAndMarkFile e c dbp path fileSHAHex sz mtime evs
                              deadline [] False w st))))"


section \<open>Resend, finalize, heartbeat\<close>

text \<open>One iteration of the loop of \<open>resendPending\<close>, after its deadline check.\<close>

definition resend_one ::
  "env \<Rightarrow> RunnerConfig \<Rightarrow> string \<Rightarrow> time option \<Rightarrow> SpoolEvent \<Rightarrow> world \<Rightarrow> runStats
     \<Rightarrow> world \<times> runStats" where
  "resend_one e c dbp deadline ev w st =
     (let t = remainingTimeout (clock w) deadline (3 * Second);
          (err, w1) = syslog_send e (event_call c (SourcePath ev) ev False t) w
      in case err of
           Some m \<Rightarrow>
             (store_update dbp (update_events (\<lambda>x. ID x = ID ev) (\<lambda>x. x\<lparr>SendError := m\<rparr>)) w1,
              st\<lparr>EventsSentErr := EventsSentErr st + 1\<rparr>)
         | None \<Rightarrow>
             (store_update dbp (update_events (\<lambda>x. ID x = ID ev)
                (\<lambda>x. x\<lparr>SentSyslog := True, SendError := [], SentAt := Some (clock w1)\<rparr>)) w1,
              st\<lparr>EventsSentOK := EventsSentOK st + 1\<rparr>))"

fun resend_loop ::
  "env \<Rightarrow> RunnerConfig \<Rightarrow> string \<Rightarrow> time option \<Rightarrow> SpoolEvent list \<Rightarrow> world \<Rightarrow> runStats
     \<Rightarrow> string option \<times> world \<times> runStats" where
  "resend_loop e c dbp deadline [] w st = (None, w, st)"
| "resend_loop e c dbp deadline (ev # evs) w st =
     (if isDeadlineExceeded (clock w) deadline then (Some ''timeout exceeded'', w, st)
      else case resend_one e c dbp deadline ev w st of
             (w1, st1) \<Rightarrow> resend_loop e c dbp deadline evs w1 st1)"

definition resendPending ::
  "env \<Rightarrow> RunnerConfig \<Rightarrow> string \<Rightarrow> time option \<Rightarrow> world \<Rightarrow> runStats
     \<Rightarrow> string option \<times> world \<times> runStats" where
  "resendPending e c dbp deadline w st =
     resend_loop e c dbp deadline (filter (\<lambda>ev. \<not> SentSyslog ev) (events (the_db w dbp))) w st"

definition events_of :: "db \<Rightarrow> ProcessedFile \<Rightarrow> SpoolEvent list" where
  "events_of d pf =
     filter (\<lambda>x. SourcePath x = Path pf \<and> FileDigestSHA256 x = SHA256 pf) (events d)"

text \<open>One iteration of the loop of \<open>finalizeFiles\<close>, on the row \<open>pf\<close> of its snapshot.\<close>

definition finalize_one ::
  "RunnerConfig \<Rightarrow> string \<Rightarrow> ProcessedFile \<Rightarrow> world \<Rightarrow> runStats \<Rightarrow> world \<times> runStats" where
  "finalize_one c dbp pf w st =
     (let total = length (events_of (the_db w dbp) pf) in
      if total = 0 then (w, st)
      else
        (let sent = length (filter SentSyslog (events_of (the_db w dbp) pf));
             allSent = (sent = total);
             w1 = (if allSent \<and> \<not> AllSent pf then
                     store_update dbp (update_files (\<lambda>x. PF_ID x = PF_ID pf)
                       (\<lambda>x. x\<lparr>AllSent := True, LastError := []\<rparr>)) w
                   else w)
         in if DeleteAfterSend c \<and> allSent \<and> \<not> Deleted pf then
              (if fs w1 (Path pf) = None then
                 (store_update dbp (update_files (\<lambda>x. PF_ID x = PF_ID pf)
                    (\<lambda>x. x\<lparr>Deleted := True, DeletedAt := Some (clock w1),
                           LastError := ''file missing''\<rparr>)) w1, st)
               else
                 (case tryDeleteProcessedFile dbp (Path pf) (SHA256 pf) w1 of
                    (None, w2) \<Rightarrow> (w2, st\<lparr>FilesDeleted := FilesDeleted st + 1\<rparr>)
                  | (Some err, w2) \<Rightarrow> (w2, st)))
            else (w1, st)))"

fun finalize_loop ::
  "RunnerConfig \<Rightarrow> string \<Rightarrow> ProcessedFile list \<Rightarrow> world \<Rightarrow> runStats \<Rightarrow> world \<times> runStats" where
  "finalize_loop c dbp [] w st = (w, st)"
| "finalize_loop c dbp (pf # pfs) w st =
     (case finalize_one c dbp pf w st of (w1, st1) \<Rightarrow> finalize_loop c dbp pfs w1 st1)"

definition finalizeFiles ::
  "RunnerConfig \<Rightarrow> string \<Rightarrow> world \<Rightarrow> runStats \<Rightarrow> string option \<times> world \<times> runStats" where
  "finalizeFiles c dbp w st =
     (let pfs = filter (\<lambda>pf. \<not> AllSent pf \<or> \<not> Deleted pf) (files (the_db w dbp));
          (w1, st1) = finalize_loop c dbp pfs w st
      in (None, w1, st1))"

definition deadman_kv :: "RunnerConfig \<Rightarrow> kvmap" where
  "deadman_kv c =
     [(''job'', JobLabel c), (''service'', ServiceLabel c), (''env'', label c ''env''),
      (''site'', label c ''site''), (''cluster'', label c ''cluster''),
      (''filename'', ''-''), (''alert_type'', ''deadman''), (''alert_level'', ''unknown''),
      (''hash'', ''deadman''), (''cccc'', ''none''), (''deadman'', DeadmanToken c)]"

definition sendDeadman ::
  "env \<Rightarrow> RunnerConfig \<Rightarrow> time option \<Rightarrow> time \<Rightarrow> time \<Rightarrow> runStats \<Rightarrow> string option \<Rightarrow> world
     \<Rightarrow> string option \<times> world" where
  "sendDeadman e c deadline start end st runErr w =
     (let status = (if runErr = None then ''ok'' else ''error'');
          errMsg = (case runErr of None \<Rightarrow> [] | Some m \<Rightarrow> m);
          m = DeadmanPayload \<lparr>dm_deadman = DeadmanToken c, dm_status = status, dm_error = errMsg,
                dm_started_at = start, dm_ended_at = end, dm_stats = st\<rparr>
      in syslog_send e
           \<lparr>appName = ''alert-spooler'',
            structuredData = buildStructuredData ''cndp'' (deadman_kv c),
            msg = m,
            timeoutArgument = remainingTimeout (clock w) deadline (3 * Second)\<rparr> w)"

section \<open>Input expansion\<close>

record inputItem =
  it_Path :: string
  it_AlertType :: string
  it_ErrorDir :: string

text \<open>The \<open>seen\<close> set of either function holds the paths already in \<open>out\<close>.\<close>

fun add_matches :: "string list \<Rightarrow> string list \<Rightarrow> string list" where
  "add_matches out [] = out"
| "add_matches out (m # ms) =
     (if m \<in> set out then add_matches out ms else add_matches (out @ [m]) ms)"

fun expandGlobs_loop ::
  "env \<Rightarrow> (string \<Rightarrow> bool) \<Rightarrow> string list \<Rightarrow> string list \<Rightarrow> string + string list" where
  "expandGlobs_loop e ex [] out = Inr out"
| "expandGlobs_loop e ex (g # gs) out =
     (case glob e ex g of
        Inl err \<Rightarrow> Inl err
      | Inr matches \<Rightarrow> expandGlobs_loop e ex gs (add_matches out matches))"

definition expandGlobs :: "env \<Rightarrow> world \<Rightarrow> string list \<Rightarrow> string + string list" where
  "expandGlobs e w globs = expandGlobs_loop e (\<lambda>p. fs w p \<noteq> None) globs []"

fun add_items :: "inputItem list \<Rightarrow> InputSpec \<Rightarrow> string list \<Rightarrow> inputItem list" where
  "add_items out inp [] = out"
| "add_items out inp (m # ms) =
     (if m \<in> set (map it_Path out) then add_items out inp ms
      else add_items
             (out @ [\<lparr>it_Path = m, it_AlertType = in_AlertType inp, it_ErrorDir = ErrorDir inp\<rparr>])
             inp ms)"

fun expandInputs_loop ::
  "env \<Rightarrow> (string \<Rightarrow> bool) \<Rightarrow> InputSpec list \<Rightarrow> inputItem list \<Rightarrow> string + inputItem list" where
  "expandInputs_loop e ex [] out = Inr out"
| "expandInputs_loop e ex (inp # inps) out =
     (if TrimSpace (Glob inp) = [] then expandInputs_loop e ex inps out
      else case glob e ex (Glob inp) of
             Inl err \<Rightarrow> Inl err
           | Inr matches \<Rightarrow> expandInputs_loop e ex inps (add_items out inp matches))"

definition expandInputs :: "env \<Rightarrow> world \<Rightarrow> InputSpec list \<Rightarrow> string + inputItem list" where
  "expandInputs e w inputs = expandInputs_loop e (\<lambda>p. fs w p \<noteq> None) inputs []"

text \<open>
  The two ingestion loops of \<open>RunOnce\<close> are one function: the loop over the legacy globs
  passes an empty alert type and an empty error directory.
\<close>

definition legacy_item :: "string \<Rightarrow> inputItem" where
  "legacy_item p = \<lparr>it_Path = p, it_AlertType = [], it_ErrorDir = []\<rparr>"

fun ingest_items ::
  "env \<Rightarrow> RunnerConfig \<Rightarrow> string \<Rightarrow> time option \<Rightarrow> inputItem list \<Rightarrow> world \<Rightarrow> runStats
     \<Rightarrow> string option \<times> world \<times> runStats" where
  "ingest_items e c dbp deadline [] w st = (None, w, st)"
| "ingest_items e c dbp deadline (it # its) w st =
     (if isDeadlineExceeded (clock w) deadline then (Some ''timeout exceeded'', w, st)
      else
        (case ingestFile e c dbp (it_Path it) (it_AlertType it) (it_ErrorDir it) deadline w st of
           (err, w1, st1) \<Rightarrow> ingest_items e c dbp deadline its w1 st1))"

section \<open>Store selection\<close>

definition OpenDB :: "env \<Rightarrow> string \<Rightarrow> world \<Rightarrow> string option \<times> world" where
  "OpenDB e path w =
     (case can_open e path of
        Some err \<Rightarrow> (Some err, w)
      | None \<Rightarrow>
          (None, if stores w path = None then w\<lparr>stores := (stores w)(path \<mapsto> empty_db)\<rparr> else w))"

definition Close :: "Runner \<Rightarrow> Runner" where
  "Close r = (if db r = None then r else r\<lparr>db := None, dbKey := []\<rparr>)"

definition pad0 :: "nat \<Rightarrow> nat \<Rightarrow> string" where
  "pad0 width n = replicate (width - length (Itoa_nat n)) CHR ''0'' @ Itoa_nat n"

definition period_key :: "nat \<times> nat \<Rightarrow> string" where
  "period_key ym = pad0 4 (fst ym) @ pad0 2 (snd ym)"

definition ensureDBForNow :: "env \<Rightarrow> Runner \<Rightarrow> world \<Rightarrow> string option \<times> Runner \<times> world" where
  "ensureDBForNow e r w =
     (if TrimSpace (DBFolder (cfg r)) = [] then
        (if db r \<noteq> None then (None, r, w)
         else case OpenDB e (DBPath (cfg r)) w of
                (Some err, w1) \<Rightarrow> (Some err, r, w1)
              | (None, w1) \<Rightarrow> (None, r\<lparr>db := Some (DBPath (cfg r)), dbKey := ''static''\<rparr>, w1))
      else
        (let key = period_key (period_local e (clock w)) in
         if db r \<noteq> None \<and> dbKey r = key then (None, r, w)
         else
           (let r1 = Close r;
                r2 = (if TrimSpace (DBPrefix (cfg r1)) = []
                      then r1\<lparr>cfg := (cfg r1)\<lparr>DBPrefix := ''alerts_''\<rparr>\<rparr> else r1);
                dbPath = PathJoin (DBFolder (cfg r2)) (DBPrefix (cfg r2) @ key @ ''.db'')
            in case OpenDB e dbPath w of
                 (Some err, w1) \<Rightarrow> (Some err, r2, w1)
               | (None, w1) \<Rightarrow> (None, r2\<lparr>db := Some dbPath, dbKey := key\<rparr>, w1))))"

section \<open>Replay\<close>

definition digits_val :: "string \<Rightarrow> nat" where
  "digits_val s = foldl (\<lambda>n c. 10 * n + (of_char c - 48)) 0 s"

text \<open>\<open>time.Parse("200601", s)\<close> on six bytes, as year times 100 plus month.\<close>

definition parse_yyyymm :: "string \<Rightarrow> nat option" where
  "parse_yyyymm s =
     (if length s = 6 \<and> (\<forall>c \<in> set s. is_digit c) \<and>
         1 \<le> digits_val (drop 4 s) \<and> digits_val (drop 4 s) \<le> 12
      then Some (digits_val s) else None)"

definition month_index :: "nat \<times> nat \<Rightarrow> nat" where
  "month_index ym = fst ym * 100 + snd ym"

definition listMonthlyDBs ::
  "env \<Rightarrow> world \<Rightarrow> string \<Rightarrow> string \<Rightarrow> time \<Rightarrow> time \<Rightarrow> string + string list" where
  "listMonthlyDBs e w folder prefix from to =
     (case glob e (\<lambda>p. stores w p \<noteq> None) (PathJoin folder (prefix @ ''*.db'')) of
        Inl err \<Rightarrow> Inl err
      | Inr candidates \<Rightarrow>
          (let fromKey = month_index (period_utc e from);
               toKey = month_index (period_utc e to);
               keep = (\<lambda>p. let base = Base p in
                         HasPrefix base prefix \<and> HasSuffix base ''.db'' \<and>
                         (let yyyymm = TrimSuffix (TrimPrefix base prefix) ''.db'' in
                          length yyyymm = 6 \<and>
                          (case parse_yyyymm yyyymm of
                             None \<Rightarrow> False
                           | Some key \<Rightarrow> \<not> (key < fromKey \<or> key > toKey))))
           in Inr (sort (filter keep candidates))))"

text \<open>One iteration of the inner loop of \<open>replayFrom\<close>, after its deadline check.\<close>

definition replay_one ::
  "env \<Rightarrow> RunnerConfig \<Rightarrow> time option \<Rightarrow> SpoolEvent \<Rightarrow> world \<Rightarrow> runStats \<Rightarrow> world \<times> runStats" where
  "replay_one e c deadline ev w st =
     (let t = remainingTimeout (clock w) deadline (3 * Second);
          (err, w1) = syslog_send e (event_call c (SourcePath ev) ev True t) w
      in case err of
           Some m \<Rightarrow> (w1, st\<lparr>EventsReplayErr := EventsReplayErr st + 1\<rparr>)
         | None \<Rightarrow> (w1, st\<lparr>EventsReplayOK := EventsReplayOK st + 1\<rparr>))"

fun replay_events ::
  "env \<Rightarrow> RunnerConfig \<Rightarrow> time option \<Rightarrow> SpoolEvent list \<Rightarrow> world \<Rightarrow> runStats
     \<Rightarrow> string option \<times> world \<times> runStats" where
  "replay_events e c deadline [] w st = (None, w, st)"
| "replay_events e c deadline (ev # evs) w st =
     (if isDeadlineExceeded (clock w) deadline then (Some ''timeout exceeded'', w, st)
      else case replay_one e c deadline ev w st of
             (w1, st1) \<Rightarrow> replay_events e c deadline evs w1 st1)"

definition replay_selection :: "time \<Rightarrow> db \<Rightarrow> SpoolEvent list" where
  "replay_selection from d = sort_key ID (filter (\<lambda>ev. ArchivedAt ev \<ge> from) (events d))"

fun replay_dbs ::
  "env \<Rightarrow> RunnerConfig \<Rightarrow> time \<Rightarrow> time option \<Rightarrow> string list \<Rightarrow> world \<Rightarrow> runStats
     \<Rightarrow> string option \<times> world \<times> runStats" where
  "replay_dbs e c from deadline [] w st = (None, w, st)"
| "replay_dbs e c from deadline (dbPath # rest) w st =
     (if isDeadlineExceeded (clock w) deadline then (Some ''timeout exceeded'', w, st)
      else case can_open e dbPath of
             Some err \<Rightarrow> (Some err, w, st)
           | None \<Rightarrow>
               (case stores w dbPath of
                  None \<Rightarrow> (Some ''no such table: spool_events'', w, st)
                | Some d \<Rightarrow>
                    (case replay_events e c deadline (replay_selection from d) w st of
                       (Some err, w1, st1) \<Rightarrow> (Some err, w1, st1)
                     | (None, w1, st1) \<Rightarrow> replay_dbs e c from deadline rest w1 st1)))"

definition replayFrom ::
  "env \<Rightarrow> RunnerConfig \<Rightarrow> time \<Rightarrow> time option \<Rightarrow> world \<Rightarrow> runStats
     \<Rightarrow> string option \<times> world \<times> runStats" where
  "replayFrom e c from deadline w st =
     (if TrimSpace (DBFolder c) = [] then
        (Some ''replay requires DBFolder (monthly rolling DB)'', w, st)
      else if TrimSpace (DBPrefix c) = [] then
        (Some ''replay requires DBPrefix (monthly rolling DB)'', w, st)
      else case listMonthlyDBs e w (DBFolder c) (DBPrefix c) from (clock w) of
             Inl err \<Rightarrow> (Some err, w, st)
           | Inr dbPaths \<Rightarrow>
               if length dbPaths = 0 then (None, w, st)
               else replay_dbs e c from deadline dbPaths w st)"

section \<open>The work cycle and the constructor\<close>

text \<open>
  The body of \<open>RunOnce\<close> in three parts: the steps of a normal cycle, the choice between
  replay and a normal cycle, and the store selection in front of both.
\<close>

definition cycle_work ::
  "env \<Rightarrow> RunnerConfig \<Rightarrow> string \<Rightarrow> time option \<Rightarrow> world \<Rightarrow> string option \<times> world \<times> runStats" where
  "cycle_work e c dbp deadline w1 =
     (case expandGlobs e w1 (InputGlobs c) of
        Inl err \<Rightarrow> (Some err, w1, stats0)
      | Inr paths \<Rightarrow>
     (case ingest_items e c dbp deadline (map legacy_item paths) w1 stats0 of
        (Some err, w2, st2) \<Rightarrow> (Some err, w2, st2)
      | (None, w2, st2) \<Rightarrow>
     (case expandInputs e w2 (Inputs c) of
        Inl err \<Rightarrow> (Some err, w2, st2)
      | Inr items \<Rightarrow>
     (case ingest_items e c dbp deadline items w2 st2 of
        (Some err, w3, st3) \<Rightarrow> (Some err, w3, st3)
      | (None, w3, st3) \<Rightarrow>
     if isDeadlineExceeded (clock w3) deadline then (Some ''timeout exceeded'', w3, st3)
     else
     (case resendPending e c dbp deadline w3 st3 of
        (Some err, w4, st4) \<Rightarrow> (Some err, w4, st4)
      | (None, w4, st4) \<Rightarrow>
     if isDeadlineExceeded (clock w4) deadline then (Some ''timeout exceeded'', w4, st4)
     else finalizeFiles c dbp w4 st4)))))"

definition cycle_steps ::
  "env \<Rightarrow> RunnerConfig \<Rightarrow> string \<Rightarrow> time option \<Rightarrow> world \<Rightarrow> string option \<times> world \<times> runStats" where
  "cycle_steps e c dbp deadline w1 =
     (case ReplayFrom c of
        Some from \<Rightarrow> replayFrom e c from deadline w1 stats0
      | None \<Rightarrow> cycle_work e c dbp deadline w1)"

definition RunOnce_body ::
  "env \<Rightarrow> Runner \<Rightarrow> time option \<Rightarrow> world \<Rightarrow> string option \<times> Runner \<times> world \<times> runStats" where
  "RunOnce_body e r deadline w =
     (case ensureDBForNow e r w of
        (Some err, r1, w1) \<Rightarrow> (Some err, r1, w1, stats0)
      | (None, r1, w1) \<Rightarrow>
          (case db r1 of
             None \<Rightarrow> (Some ''nil store'', r1, w1, stats0)
           | Some dbp \<Rightarrow>
               (case cycle_steps e (cfg r1) dbp deadline w1 of
                  (err, w2, st2) \<Rightarrow> (err, r1, w2, st2))))"

text \<open>
  \<open>RunOnce\<close>: the deferred function sends the heartbeat after the body, whatever the
  body returned, unless no token is configured.
\<close>

definition cycle_deadline :: "Runner \<Rightarrow> world \<Rightarrow> time option" where
  "cycle_deadline r w = (if Timeout (cfg r) > 0 then Some (clock w + Timeout (cfg r)) else None)"

definition RunOnce :: "env \<Rightarrow> Runner \<Rightarrow> world \<Rightarrow> string option \<times> Runner \<times> world" where
  "RunOnce e r w =
     (let start = clock w;
          deadline = cycle_deadline r w;
          (runErr, r1, w1, st1) = RunOnce_body e r deadline w;
          w2 = (if TrimSpace (DeadmanToken (cfg r1)) = [] then w1
                else snd (sendDeadman e (cfg r1) deadline start (clock w1) st1 runErr w1))
      in (runErr, r1, w2))"

definition NewRunner :: "env \<Rightarrow> RunnerConfig \<Rightarrow> world \<Rightarrow> (string + Runner) \<times> world" where
  "NewRunner e c w =
     (if TrimSpace (DBFolder c) = [] \<and> TrimSpace (DBPath c) = [] then
        (Inl ''DBPath or DBFolder is required'', w)
      else if TrimSpace (JobLabel c) = [] then (Inl ''JobLabel is required'', w)
      else if length (InputGlobs c) = 0 \<and> length (Inputs c) = 0 then
        (Inl ''Inputs or InputGlobs is required'', w)
      else if SyslogAddr c = [] then (Inl ''SyslogAddr is required'', w)
      else
        (let c1 = (if ServiceLabel c = [] then c\<lparr>ServiceLabel := ''alerts''\<rparr> else c);
             c2 = (if HashHexLen c1 \<le> 0 then c1\<lparr>HashHexLen := 24\<rparr> else c1);
             c3 = (if \<not> DeleteAfterSend c2 then c2\<lparr>DeleteAfterSend := True\<rparr> else c2);
             r = \<lparr>cfg = c3, db = None, dbKey = []\<rparr>
         in case ensureDBForNow e r w of
              (Some err, r1, w1) \<Rightarrow> (Inl err, w1)
            | (None, r1, w1) \<Rightarrow> (Inr r1, w1)))"

section \<open>Specification-level notions used in the theorems\<close>

text \<open>The option values that \<open>FlattenJSON\<close> works with after its defaults.\<close>

definition effective_opts :: "FlattenOptions \<Rightarrow> FlattenOptions" where
  "effective_opts opts =
     \<lparr>MaxDepth = (if MaxDepth opts \<le> 0 then 16 else MaxDepth opts),
      MaxKeys = (if MaxKeys opts \<le> 0 then 5000 else MaxKeys opts)\<rparr>"

text \<open>
  The flattener in the words of its description. \<open>leaf_entries\<close> lists, in the order of
  the traversal, the entries that the value calls for: a scalar gives one entry under its
  path (\<open>value\<close> for the empty path); the members of an object and the elements of an
  array are one level deeper than the container, under the paths \<open>parent.key\<close> and
  \<open>parent[index]\<close>; a value at a level above \<open>MaxDepth\<close> is not descended into and
  gives the placeholder under its path, or nothing when its path is empty.
  \<open>store_capped\<close> stores the entries one after the other, a later entry replacing an
  earlier one with the same path, and stops as soon as the mapping has \<open>cap\<close> entries.
\<close>

definition depth_placeholder :: "FlattenOptions \<Rightarrow> json" where
  "depth_placeholder opts = JString (''<max_depth:'' @ Itoa (MaxDepth opts) @ ''>'')"

definition member_path :: "string \<Rightarrow> string \<Rightarrow> string" where
  "member_path parent k = (if parent = [] then k else parent @ ''.'' @ k)"

definition elem_path :: "string \<Rightarrow> nat \<Rightarrow> string" where
  "elem_path parent i =
     (if parent = [] then Itoa (int i) else parent @ ''['' @ Itoa (int i) @ '']'')"

fun leaf_entries :: "FlattenOptions \<Rightarrow> string \<Rightarrow> json \<Rightarrow> int \<Rightarrow> (string \<times> json) list"
  and member_entries ::
    "FlattenOptions \<Rightarrow> string \<Rightarrow> (string \<times> json) list \<Rightarrow> int \<Rightarrow> (string \<times> json) list"
  and elem_entries ::
    "FlattenOptions \<Rightarrow> string \<Rightarrow> nat \<Rightarrow> json list \<Rightarrow> int \<Rightarrow> (string \<times> json) list"
where
  "leaf_entries opts path v level =
     (if level > MaxDepth opts then
        (if path = [] then [] else [(path, depth_placeholder opts)])
      else (case v of
          JObject kvs \<Rightarrow> member_entries opts path kvs (level + 1)
        | JArray xs \<Rightarrow> elem_entries opts path 0 xs (level + 1)
        | _ \<Rightarrow> [(if path = [] then ''value'' else path, v)]))"
| "member_entries opts parent [] level = []"
| "member_entries opts parent (kc # rest) level =
     leaf_entries opts (member_path parent (fst kc)) (snd kc) level
     @ member_entries opts parent rest level"
| "elem_entries opts parent i [] level = []"
| "elem_entries opts parent i (child # rest) level =
     leaf_entries opts (elem_path parent i) child level
     @ elem_entries opts parent (Suc i) rest level"

fun store_capped :: "int \<Rightarrow> flat \<Rightarrow> (string \<times> json) list \<Rightarrow> flat" where
  "store_capped cap out [] = out"
| "store_capped cap out (kv # es) =
     (if int (length out) \<ge> cap then out
      else store_capped cap (AList.update (fst kv) (snd kv) out) es)"

text \<open>
  The encoder in the words of its description: a key is present when it has a value that
  is not blank; the preferred keys that are present come first, in their fixed order, then
  the other present keys in ascending order.
\<close>

definition sd_present :: "kvmap \<Rightarrow> string \<Rightarrow> bool" where
  "sd_present kv k = (case map_of kv k of None \<Rightarrow> False | Some v \<Rightarrow> TrimSpace v \<noteq> [])"

definition sd_key_order :: "kvmap \<Rightarrow> string list" where
  "sd_key_order kv =
     filter (sd_present kv) preferredOrder
     @ sorted_list_of_set {k. sd_present kv k \<and> k \<notin> set preferredOrder}"

text \<open>The preferred list as the description of the encoder words it.\<close>

definition claimed_preferredOrder :: "string list" where
  "claimed_preferredOrder = [''job'', ''service'', ''env'', ''site'', ''cluster'', ''filename'',
     ''alert_type'', ''alert_level'', ''hash'', ''tag'', ''replay'', ''deadman'']"

section \<open>Example inputs\<close>

text \<open>
  A map with an empty value and with values that are white space only: \<open>U+00A0\<close>, and
  \<open>U+3000\<close> before a space.
\<close>

definition demo_kv :: kvmap where
  "demo_kv = [(''job'', ''mhdbs''), (''service'', ''alerts''), (''env'', []),
     (''site'', [CHR 0xC2, CHR 0xA0]), (''filename'', ''f.warn''), (''cccc'', ''none''),
     (''zzz'', ''3''), (''mmm'', [CHR 0xE3, CHR 0x80, CHR 0x80, CHR 0x20]), (''aaa'', ''1'')]"

text \<open>
  An environment whose first \<open>k\<close> sends fail, each send taking 5 ns, with one input
  pattern and one store pattern; the codec and the digest are stand-ins.
\<close>

definition demo_env :: "nat \<Rightarrow> env" where
  "demo_env k =
     \<lparr>send_result = (\<lambda>n c. if n < k then Some ''mock syslog send failure'' else None),
      send_elapsed = (\<lambda>n. 5),
      glob = (\<lambda>ex pat.
         if pat = ''/in/general/*.warn'' then Inr (filter ex [''/in/general/fail.warn''])
         else if pat = ''/db/spooler_*.db'' then Inr (filter ex [''/db/spooler_202602.db''])
         else Inr []),
      json_decode = (\<lambda>s. Inr (JObject [(''detail'', JString s)])),
      json_encode = (\<lambda>j. Some ''{}''),
      sprint = (\<lambda>j. []),
      unicode_upper = (\<lambda>r. r),
      unicode_lower = (\<lambda>r. r),
      sha256 = (\<lambda>s. s),
      period_local = (\<lambda>t. (2026, 2)),
      period_utc = (\<lambda>t. (2026, 2)),
      can_open = (\<lambda>p. None)\<rparr>"

definition demo_cfg :: RunnerConfig where
  "demo_cfg =
     \<lparr>DBPath = [], DBFolder = ''/db'', DBPrefix = ''spooler_'', JobLabel = ''mhdbs'',
      Debug = False, InputGlobs = [],
      Inputs = [\<lparr>Glob = ''/in/general/*.warn'', in_AlertType = ''general'', ErrorDir = []\<rparr>],
      SyslogAddr = ''127.0.0.1:1'', ServiceLabel = ''alerts'', HashHexLen = 24,
      CCCCEnabled = False, CCCCCodes = [''ZBBB''], DeleteAfterSend = False, Timeout = 0,
      DeadmanToken = [], ReplayFrom = None, FixedLabels = []\<rparr>"

definition demo_world :: world where
  "demo_world =
     \<lparr>fs = [''/in/general/fail.warn'' \<mapsto> File ''12:00 heart beat missing ZBBB'' 0 True],
      stores = Map.empty, clock = 1000, calls = []\<rparr>"

definition demo_runner :: Runner where
  "demo_runner = \<lparr>cfg = demo_cfg\<lparr>DeleteAfterSend := True\<rparr>,
     db = Some ''/db/spooler_202602.db'', dbKey = ''202602''\<rparr>"

text \<open>A runner with a deadline of 3 ns, a heartbeat token, and sends that take 5 ns.\<close>

definition hasty_runner :: Runner where
  "hasty_runner = demo_runner\<lparr>cfg := (cfg demo_runner)\<lparr>Timeout := 3, DeadmanToken := ''tok''\<rparr>\<rparr>"

text \<open>A tree with a path written twice and values below the depth bound 1.\<close>

definition demo_tree :: json where
  "demo_tree = JObject
     [(''a'', JObject [(''b'', JObject [(''deep'', JNumber 9)])]),
      (''a.b'', JNumber 7),
      (''c'', JArray [JNumber 1, JArray [JNumber 2]]),
      (''d'', JBool True), (''e'', JNull)]"

text \<open>
  A text with the letter \<open>U+00E9\<close>, an upper-case table that knows this letter, and codes
  of which the first is blank (\<open>U+00A0\<close>, \<open>U+3000\<close>), the second does not occur and
  the third occurs once trimmed and in upper case.
\<close>

definition demo_upper :: "rune \<Rightarrow> rune" where
  "demo_upper r = (if r = 233 then 201 else r)"

definition demo_accent_text :: string where
  "demo_accent_text = ''12:00 h'' @ [CHR 0xC3, CHR 0xA9] @ ''llo zgggzhhh''"

definition demo_accent_codes :: "string list" where
  "demo_accent_codes =
     [[CHR 0xC2, CHR 0xA0, CHR 0xE3, CHR 0x80, CHR 0x80], ''ZBBB'',
      [CHR 0xC2, CHR 0xA0] @ ''H'' @ [CHR 0xC3, CHR 0xA9] @ ''llo'' @ [CHR 0xE3, CHR 0x80, CHR 0x80, CHR 0x09],
      ''zggg'']"

definition demo_accent_code :: string where
  "demo_accent_code = ''H'' @ [CHR 0xC3, CHR 0x89] @ ''LLO''"

section \<open>White space\<close>

lemma TrimLeftSpace_blank: "TrimLeftSpace s = [] \<longleftrightarrow> list_all IsSpace (Runes s)"
  by (induction s rule: TrimLeftSpace.induct) (auto split: prod.splits)

lemma TrimLeftSpace_first:
  "TrimLeftSpace s = [] \<or> \<not> IsSpace (fst (DecodeRune (TrimLeftSpace s)))"
  by (induction s rule: TrimLeftSpace.induct) (auto split: prod.splits)

lemma RuneError_not_space: "\<not> IsSpace RuneError"
  by (simp add: IsSpace_def RuneError_def in_range_def)

lemma DecodeRune_take:
  "DecodeRune (take (Suc n) t) = DecodeRune t \<or> fst (DecodeRune (take (Suc n) t)) = RuneError"
proof -
  consider "n = 0" | "n = 1" | "n = 2" | "n \<ge> 3" by linarith
  then show ?thesis
  proof cases
    case 1
    then show ?thesis
      by (cases t) (auto simp: DecodeRune_def split: list.splits)
  next
    case 2
    then show ?thesis
      by (cases t; cases "tl t") (auto simp: DecodeRune_def numeral_2_eq_2 split: list.splits)
  next
    case 3
    then show ?thesis
      by (cases t; cases "tl t"; cases "tl (tl t)") (auto simp: DecodeRune_def numeral_3_eq_3 split: list.splits)
  next
    case 4
    then have "take 4 (take (Suc n) t) = take 4 t" by (simp add: min_def)
    then show ?thesis by (simp add: DecodeRune_def)
  qed
qed

lemma DecodeLastRune_space:
  assumes "DecodeLastRune t = (r, w)" and "IsSpace r"
  shows "0 < w \<and> w \<le> length t \<and> DecodeRune (drop (length t - w) t) = (r, w)"
proof (cases "rev t")
  case Nil
  with assms show ?thesis by (simp add: DecodeLastRune_def RuneError_not_space)
next
  case (Cons b bs)
  then have t: "t = rev bs @ [b]" by (metis rev_rev_ident rev.simps(2))
  show ?thesis
  proof (cases "(of_char b :: int) < 128")
    case True
    with assms Cons have "r = of_char b" "w = 1" by (simp_all add: DecodeLastRune_def)
    with True t show ?thesis by (simp add: DecodeRune_def)
  next
    case False
    show ?thesis
    proof (cases "find (\<lambda>j. j < length (rev t) \<and> RuneStart (rev t ! j)) [1, 2, 3]")
      case None
      with assms Cons False have "r = RuneError"
        by (simp add: DecodeLastRune_def Let_def del: find.simps)
      with assms show ?thesis by (simp add: RuneError_not_space)
    next
      case (Some j)
      then have j: "j < length t" by (auto split: if_splits)
      obtain r' sz where d: "DecodeRune (rev (take (Suc j) (rev t))) = (r', sz)" by fastforce
      have "sz = Suc j"
      proof (rule ccontr)
        assume "sz \<noteq> Suc j"
        with assms Cons False Some d have "r = RuneError"
          by (simp add: DecodeLastRune_def Let_def del: find.simps)
        with assms show False by (simp add: RuneError_not_space)
      qed
      with assms Cons False Some d have "r = r'" "w = Suc j"
        by (simp_all add: DecodeLastRune_def Let_def del: find.simps)
      moreover have "rev (take (Suc j) (rev t)) = drop (length t - Suc j) t"
        by (simp add: take_rev)
      ultimately show ?thesis using d j \<open>sz = Suc j\<close> by simp
    qed
  qed
qed

lemma TrimRightSpace_keeps:
  "t \<noteq> [] \<Longrightarrow> \<not> IsSpace (fst (DecodeRune t)) \<Longrightarrow> TrimRightSpace t \<noteq> []"
proof (induction t rule: TrimRightSpace.induct)
  case (1 s)
  obtain r w where d: "DecodeLastRune s = (r, w)" by fastforce
  show ?case
  proof (cases "IsSpace r")
    case False
    with d 1 show ?thesis by (subst TrimRightSpace.simps) simp
  next
    case True
    from DecodeLastRune_space[OF d True]
    have w: "0 < w" "w \<le> length s" and dd: "DecodeRune (drop (length s - w) s) = (r, w)" by auto
    have "w \<noteq> length s"
    proof
      assume "w = length s"
      with dd have "DecodeRune s = (r, w)" by simp
      with True 1(3) show False by simp
    qed
    with w obtain n where n: "length s - w = Suc n" by (cases "length s - w") auto
    have ne: "take (Suc n) s \<noteq> []" using 1(2) by simp
    have "\<not> IsSpace (fst (DecodeRune (take (Suc n) s)))"
      using DecodeRune_take[of n s] 1(3) by (auto simp: RuneError_not_space)
    with ne have "TrimRightSpace (take (Suc n) s) \<noteq> []"
      using 1(1)[OF 1(2) d[symmetric] True] w n by simp
    moreover have "TrimRightSpace s = TrimRightSpace (take (Suc n) s)"
      using d True 1(2) w n by (subst TrimRightSpace.simps) simp
    ultimately show ?thesis by simp
  qed
qed

lemma TrimSpace_blank: "TrimSpace v = [] \<longleftrightarrow> list_all IsSpace (Runes v)"
proof
  assume "TrimSpace v = []"
  then have "TrimLeftSpace v = []"
    using TrimRightSpace_keeps[of "TrimLeftSpace v"] TrimLeftSpace_first[of v]
    by (auto simp: TrimSpace_def)
  then show "list_all IsSpace (Runes v)" by (simp add: TrimLeftSpace_blank)
next
  assume "list_all IsSpace (Runes v)"
  then have "TrimLeftSpace v = []" by (simp add: TrimLeftSpace_blank)
  then show "TrimSpace v = []" by (simp add: TrimSpace_def TrimRightSpace.simps)
qed

section \<open>The tagger\<close>

lemma HasPrefix_iff: "HasPrefix s p \<longleftrightarrow> (\<exists>suf. s = p @ suf)"
  by (induction s p rule: HasPrefix.induct) auto

lemma Contains_iff: "Contains s sub \<longleftrightarrow> (\<exists>pre suf. s = pre @ sub @ suf)"
proof (induction s)
  case Nil
  then show ?case by auto
next
  case (Cons c cs)
  show ?case
  proof
    assume "Contains (c # cs) sub"
    then consider "HasPrefix (c # cs) sub" | "Contains cs sub" by auto
    then show "\<exists>pre suf. c # cs = pre @ sub @ suf"
    proof cases
      case 1
      then obtain suf where "c # cs = sub @ suf" by (auto simp: HasPrefix_iff)
      then have "c # cs = [] @ sub @ suf" by simp
      then show ?thesis by blast
    next
      case 2
      then obtain pre suf where "cs = pre @ sub @ suf" using Cons.IH by auto
      then have "c # cs = (c # pre) @ sub @ suf" by simp
      then show ?thesis by blast
    qed
  next
    assume "\<exists>pre suf. c # cs = pre @ sub @ suf"
    then obtain pre suf where eq: "c # cs = pre @ sub @ suf" by blast
    show "Contains (c # cs) sub"
    proof (cases pre)
      case Nil
      with eq have "HasPrefix (c # cs) sub" by (auto simp: HasPrefix_iff)
      then show ?thesis by simp
    next
      case (Cons a pre')
      with eq have "cs = pre' @ sub @ suf" by simp
      then have "Contains cs sub" using Cons.IH by blast
      then show ?thesis by simp
    qed
  qed
qed

lemma ExtractCCCC_loop_find:
  "ExtractCCCC_loop tbl upper codes =
     (case find (\<lambda>c. c \<noteq> [] \<and> Contains upper c) (map (\<lambda>c. ToUpper tbl (TrimSpace c)) codes) of
        None \<Rightarrow> ''none'' | Some c \<Rightarrow> c)"
  by (induction codes) (auto simp: Let_def)

lemma buildEvent_flag:
  "buildEvent e (c\<lparr>CCCCEnabled := b\<rparr>) item raw sourcePath sourceType alertType fileSHA idx now
     = buildEvent e c item raw sourcePath sourceType alertType fileSHA idx now"
  by (simp add: buildEvent_def Let_def split: option.splits)

lemma toEvents_items_flag:
  "toEvents_items e (c\<lparr>CCCCEnabled := b\<rparr>) items i raw sourcePath sourceType alertType fileSHA now
     = toEvents_items e c items i raw sourcePath sourceType alertType fileSHA now"
  by (induction items arbitrary: i) (simp_all add: buildEvent_flag)

text \<open>
  Claim C8, as amended. The tagger answers with the first configured code, trimmed of
  white space and in upper case, that is not blank and occurs in the upper-cased raw text,
  and with \<open>none\<close> when there is no such code (in particular for an empty list); the
  upper-casing is that of \<open>strings.ToUpper\<close>, for every table of the letters outside
  ASCII. The \<open>CCCCEnabled\<close> flag has no influence on the events that are built. The tag
  of an event that was built is \<open>none\<close> for an empty code list and the tagger's answer
  on the key text otherwise; the event that stands for an item that could not be built
  has the empty tag, whatever the code list.
\<close>

theorem ExtractCCCC_first_match:
  "ExtractCCCC tbl text codes =
     (case find (\<lambda>c. c \<noteq> [] \<and> (\<exists>pre suf. ToUpper tbl text = pre @ c @ suf))
             (map (\<lambda>c. ToUpper tbl (TrimSpace c)) codes) of
        None \<Rightarrow> ''none'' | Some c \<Rightarrow> c)
   \<and> toEvents e (c\<lparr>CCCCEnabled := b\<rparr>) decoded raw sourcePath sourceType alertType fileSHA now
       = toEvents e c decoded raw sourcePath sourceType alertType fileSHA now
   \<and> buildEvent e (c\<lparr>CCCCEnabled := b\<rparr>) item raw sourcePath sourceType alertType fileSHA idx now
       = buildEvent e c item raw sourcePath sourceType alertType fileSHA idx now
   \<and> (case buildEvent e c item raw sourcePath sourceType alertType fileSHA idx now of
         Inl err \<Rightarrow> CCCC (newErrorEvent sourcePath sourceType alertType fileSHA raw err now) = []
       | Inr ev \<Rightarrow> CCCC ev = (if CCCCCodes c = [] then ''none''
                              else ExtractCCCC (unicode_upper e) (extractKeyText e item) (CCCCCodes c)))"
proof -
  have 1: "ExtractCCCC tbl text codes =
     (case find (\<lambda>c. c \<noteq> [] \<and> (\<exists>pre suf. ToUpper tbl text = pre @ c @ suf))
             (map (\<lambda>c. ToUpper tbl (TrimSpace c)) codes) of
        None \<Rightarrow> ''none'' | Some c \<Rightarrow> c)"
    by (cases codes) (simp_all add: ExtractCCCC_def ExtractCCCC_loop_find Contains_iff del: ExtractCCCC_loop.simps)
  have 2: "buildEvent e (c\<lparr>CCCCEnabled := b\<rparr>) item raw sourcePath sourceType alertType fileSHA idx now
       = buildEvent e c item raw sourcePath sourceType alertType fileSHA idx now"
    by (rule buildEvent_flag)
  have 3: "toEvents e (c\<lparr>CCCCEnabled := b\<rparr>) decoded raw sourcePath sourceType alertType fileSHA now
       = toEvents e c decoded raw sourcePath sourceType alertType fileSHA now"
    unfolding toEvents_def by (simp only: buildEvent_flag toEvents_items_flag)
  have 4: "(case buildEvent e c item raw sourcePath sourceType alertType fileSHA idx now of
         Inl err \<Rightarrow> CCCC (newErrorEvent sourcePath sourceType alertType fileSHA raw err now) = []
       | Inr ev \<Rightarrow> CCCC ev = (if CCCCCodes c = [] then ''none''
                              else ExtractCCCC (unicode_upper e) (extractKeyText e item) (CCCCCodes c)))"
    by (simp add: buildEvent_def newErrorEvent_def Let_def split: option.splits)
  from 1 2 3 4 show ?thesis by blast
qed

text \<open>
  Claim C8 as stated fails on a blank code: the empty string occurs in every text, yet
  the tagger skips it and answers with the next code.
\<close>

theorem ExtractCCCC_blank_code_counterexample:
  "ExtractCCCC (\<lambda>r. r) ''ZBBB'' [[], ''ZBBB''] = ''ZBBB''
   \<and> Contains (ToUpper (\<lambda>r. r) ''ZBBB'') (ToUpper (\<lambda>r. r) (TrimSpace []))"
  by code_simp

lemma demo_accent_tag:
  "ExtractCCCC demo_upper demo_accent_text demo_accent_codes = demo_accent_code"
  by code_simp

lemma demo_accent_find:
  "find (\<lambda>c. c \<noteq> [] \<and> Contains (ToUpper demo_upper demo_accent_text) c)
        (map (\<lambda>c. ToUpper demo_upper (TrimSpace c)) demo_accent_codes) = Some demo_accent_code"
  by code_simp

theorem ExtractCCCC_first_match_witness:
  "ExtractCCCC demo_upper demo_accent_text demo_accent_codes = demo_accent_code
   \<and> find (\<lambda>c. c \<noteq> [] \<and> (\<exists>pre suf. ToUpper demo_upper demo_accent_text = pre @ c @ suf))
         (map (\<lambda>c. ToUpper demo_upper (TrimSpace c)) demo_accent_codes) = Some demo_accent_code"
  using ExtractCCCC_first_match[of demo_upper demo_accent_text demo_accent_codes]
        demo_accent_tag demo_accent_find
  by (simp add: Contains_iff)


section \<open>The flattener\<close>

declare flattenInto.simps [simp del]
declare leaf_entries.simps [simp del]

lemma length_update_le: "length (AList.update k v al) \<le> Suc (length al)"
  by (induction al) auto

lemma store_capped_full: "int (length out) \<ge> cap \<Longrightarrow> store_capped cap out es = out"
  by (cases es) auto

lemma store_capped_append:
  "store_capped cap out (xs @ ys) = store_capped cap (store_capped cap out xs) ys"
proof (induction xs arbitrary: out)
  case Nil
  then show ?case by simp
next
  case (Cons kv xs)
  then show ?case by (simp add: store_capped_full)
qed

lemma store_capped_length:
  "int (length out) \<le> cap \<Longrightarrow> int (length (store_capped cap out es)) \<le> cap"
proof (induction es arbitrary: out)
  case Nil
  then show ?case by simp
next
  case (Cons kv es)
  show ?case
  proof (cases "int (length out) \<ge> cap")
    case True
    with Cons.prems show ?thesis by simp
  next
    case False
    then have "int (length (AList.update (fst kv) (snd kv) out)) \<le> cap"
      using length_update_le[of "fst kv" "snd kv" out] by linarith
    then show ?thesis using False Cons.IH by simp
  qed
qed

lemma store_capped_distinct:
  "distinct (map fst out) \<Longrightarrow> distinct (map fst (store_capped cap out es))"
  by (induction es arbitrary: out) (auto simp: distinct_update)

lemma store_capped_map_of:
  "int (length out) + int (length es) \<le> cap \<Longrightarrow>
     map_of (store_capped cap out es) = map_of out ++ map_of (rev es)"
proof (induction es arbitrary: out)
  case Nil
  then show ?case by simp
next
  case (Cons kv es)
  have le: "int (length (AList.update (fst kv) (snd kv) out)) + int (length es) \<le> cap"
    using Cons.prems length_update_le[of "fst kv" "snd kv" out] by simp
  have "map_of (store_capped cap out (kv # es))
          = map_of (AList.update (fst kv) (snd kv) out) ++ map_of (rev es)"
    using Cons.prems Cons.IH[OF le] by simp
  also have "\<dots> = map_of out ++ map_of (rev (kv # es))"
    by (cases kv) (simp add: update_conv' map_add_def fun_eq_iff split: option.splits)
  finally show ?case .
qed

lemma set_update_subset: "set (AList.update k v al) \<subseteq> insert (k, v) (set al)"
  by (induction al) auto

lemma store_capped_subset: "set (store_capped cap out es) \<subseteq> set out \<union> set es"
proof (induction es arbitrary: out)
  case Nil
  then show ?case by simp
next
  case (Cons kv es)
  show ?case
    using Cons.IH[of "AList.update (fst kv) (snd kv) out"]
          set_update_subset[of "fst kv" "snd kv" out]
    by (cases kv) auto
qed

lemma flatten_refines:
  "flattenInto out prefix v depth opts
     = store_capped (MaxKeys opts) out (leaf_entries opts prefix v depth)"
  "flatten_members out prefix kvs depth opts
     = store_capped (MaxKeys opts) out (member_entries opts prefix kvs (depth + 1))"
  "flatten_elems out prefix i xs depth opts
     = store_capped (MaxKeys opts) out (elem_entries opts prefix i xs (depth + 1))"
proof (induction out prefix v depth opts and out prefix kvs depth opts and out prefix i xs depth opts
       rule: flattenInto_flatten_members_flatten_elems.induct)
  case (1 out prefix v depth opts)
  show ?case
  proof (cases "int (length out) \<ge> MaxKeys opts")
    case True
    then show ?thesis
      by (subst flattenInto.simps) (simp add: store_capped_full)
  next
    case False
    show ?thesis
    proof (cases "depth > MaxDepth opts")
      case True
      with False show ?thesis
        by (subst flattenInto.simps, subst leaf_entries.simps)
           (simp add: depth_placeholder_def)
    next
      case deep: False
      show ?thesis
        using False deep 1
        by (subst flattenInto.simps, subst leaf_entries.simps)
           (auto split: json.splits)
    qed
  qed
next
  case (2 out prefix depth opts)
  show ?case by simp
next
  case (3 out prefix kc rest depth opts)
  let ?key = "if prefix \<noteq> [] then prefix @ ''.'' @ fst kc else fst kc"
  let ?out' = "flattenInto out ?key (snd kc) (depth + 1) opts"
  have key: "?key = member_path prefix (fst kc)" by (simp add: member_path_def)
  have a: "?out' = store_capped (MaxKeys opts) out (leaf_entries opts ?key (snd kc) (depth + 1))"
    by (rule 3(1)[OF refl])
  show ?case
  proof (cases "int (length ?out') \<ge> MaxKeys opts")
    case True
    then have "flatten_members out prefix (kc # rest) depth opts = ?out'"
      by (simp add: Let_def)
    moreover have "store_capped (MaxKeys opts) ?out' (member_entries opts prefix rest (depth + 1)) = ?out'"
      using True by (rule store_capped_full)
    ultimately show ?thesis
      using a by (simp add: store_capped_append key del: flatten_members.simps)
  next
    case False
    then have "flatten_members out prefix (kc # rest) depth opts
                 = flatten_members ?out' prefix rest depth opts"
      by (simp add: Let_def)
    moreover have "flatten_members ?out' prefix rest depth opts
                 = store_capped (MaxKeys opts) ?out' (member_entries opts prefix rest (depth + 1))"
      using False by (intro 3(2)[OF refl refl]) simp
    ultimately show ?thesis
      using a by (simp add: store_capped_append key del: flatten_members.simps)
  qed
next
  case (4 out prefix i depth opts)
  show ?case by simp
next
  case (5 out prefix i child rest depth opts)
  let ?key = "if prefix \<noteq> [] then prefix @ ''['' @ Itoa (int i) @ '']'' else Itoa (int i)"
  let ?out' = "flattenInto out ?key child (depth + 1) opts"
  have key: "?key = elem_path prefix i" by (simp add: elem_path_def)
  have a: "?out' = store_capped (MaxKeys opts) out (leaf_entries opts ?key child (depth + 1))"
    by (rule 5(1)[OF refl refl])
  show ?case
  proof (cases "int (length ?out') \<ge> MaxKeys opts")
    case True
    then have "flatten_elems out prefix i (child # rest) depth opts = ?out'"
      by (simp add: Let_def)
    moreover have "store_capped (MaxKeys opts) ?out' (elem_entries opts prefix (Suc i) rest (depth + 1)) = ?out'"
      using True by (rule store_capped_full)
    ultimately show ?thesis
      using a by (simp add: store_capped_append key del: flatten_elems.simps)
  next
    case False
    then have "flatten_elems out prefix i (child # rest) depth opts
                 = flatten_elems ?out' prefix (Suc i) rest depth opts"
      by (simp add: Let_def)
    moreover have "flatten_elems ?out' prefix (Suc i) rest depth opts
                 = store_capped (MaxKeys opts) ?out' (elem_entries opts prefix (Suc i) rest (depth + 1))"
      using False by (intro 5(2)[OF refl refl refl]) simp
    ultimately show ?thesis
      using a by (simp add: store_capped_append key del: flatten_elems.simps)
  qed
qed

lemma FlattenJSON_effective: "FlattenJSON v opts = flattenInto [] [] v 0 (effective_opts opts)"
  by (cases opts) (simp add: FlattenJSON_def effective_opts_def Let_def)

text \<open>
  Claim C9, as amended. The result of \<open>FlattenJSON\<close> is what storing the entries of
  \<open>leaf_entries\<close> in the order of the traversal gives, a later entry replacing an
  earlier one with the same path and the storing stopping at \<open>MaxKeys\<close> entries: one
  entry for each scalar at a nesting level up to \<open>MaxDepth\<close>; for a value at a deeper
  level, which is not descended into, the placeholder naming the bound under its path, or
  nothing when its path is empty. The result has at most \<open>MaxKeys\<close> entries (5000 when
  the option is not positive) under distinct paths, each of them one of the entries listed,
  and when the entries are no more than the cap, it maps each path to the last entry
  written for it.
\<close>

theorem FlattenJSON_cap_and_depth:
  "FlattenJSON v opts
     = store_capped (MaxKeys (effective_opts opts)) []
         (leaf_entries (effective_opts opts) [] v 0)
   \<and> int (length (FlattenJSON v opts)) \<le> MaxKeys (effective_opts opts)
   \<and> distinct (map fst (FlattenJSON v opts))
   \<and> set (FlattenJSON v opts) \<subseteq> set (leaf_entries (effective_opts opts) [] v 0)
   \<and> (int (length (leaf_entries (effective_opts opts) [] v 0)) \<le> MaxKeys (effective_opts opts)
        \<longrightarrow> map_of (FlattenJSON v opts)
              = map_of (rev (leaf_entries (effective_opts opts) [] v 0)))"
proof -
  let ?o = "effective_opts opts"
  have 1: "FlattenJSON v opts = store_capped (MaxKeys ?o) [] (leaf_entries ?o [] v 0)"
    by (simp add: FlattenJSON_effective flatten_refines(1))
  have pos: "int (length ([] :: flat)) \<le> MaxKeys ?o"
    by (simp add: effective_opts_def)
  have 2: "int (length (FlattenJSON v opts)) \<le> MaxKeys ?o"
    unfolding 1 by (rule store_capped_length[OF pos])
  have 3: "distinct (map fst (FlattenJSON v opts))"
    unfolding 1 by (rule store_capped_distinct) simp
  have 4: "int (length (leaf_entries ?o [] v 0)) \<le> MaxKeys ?o
        \<longrightarrow> map_of (FlattenJSON v opts) = map_of (rev (leaf_entries ?o [] v 0))"
    unfolding 1 using store_capped_map_of[of "[]" "leaf_entries ?o [] v 0" "MaxKeys ?o"]
    by simp
  have 5: "set (FlattenJSON v opts) \<subseteq> set (leaf_entries ?o [] v 0)"
    unfolding 1 using store_capped_subset[of "MaxKeys ?o" "[]" "leaf_entries ?o [] v 0"] by simp
  from 1 2 3 4 5 show ?thesis by blast
qed

text \<open>
  Claim C9 as stated fails for members named by the empty string: the subtree below the
  depth bound has the empty path and leaves no placeholder.
\<close>

theorem FlattenJSON_empty_path_counterexample:
  "FlattenJSON (JObject [([], JObject [([], JNumber 5)])]) \<lparr>MaxDepth = 1, MaxKeys = 100\<rparr> = []
   \<and> FlattenJSON (JObject [(''a'', JObject [(''b'', JNumber 5)])]) \<lparr>MaxDepth = 1, MaxKeys = 100\<rparr>
       = [(''a.b'', JString ''<max_depth:1>'')]"
  by code_simp

lemma demo_tree_entries:
  "leaf_entries (effective_opts \<lparr>MaxDepth = 1, MaxKeys = 8\<rparr>) [] demo_tree 0
     = [(''a.b'', JString ''<max_depth:1>''), (''a.b'', JNumber 7),
        (''c[0]'', JString ''<max_depth:1>''), (''c[1]'', JString ''<max_depth:1>''),
        (''d'', JBool True), (''e'', JNull)]"
  by code_simp

lemma demo_tree_opts: "MaxKeys (effective_opts \<lparr>MaxDepth = 1, MaxKeys = 8\<rparr>) = 8"
  by (simp add: effective_opts_def)

theorem FlattenJSON_cap_and_depth_witness:
  "int (length (leaf_entries (effective_opts \<lparr>MaxDepth = 1, MaxKeys = 8\<rparr>) [] demo_tree 0)) \<le> 8
   \<and> FlattenJSON demo_tree \<lparr>MaxDepth = 1, MaxKeys = 8\<rparr>
       = [(''a.b'', JNumber 7), (''c[0]'', JString ''<max_depth:1>''),
          (''c[1]'', JString ''<max_depth:1>''), (''d'', JBool True), (''e'', JNull)]
   \<and> map_of (FlattenJSON demo_tree \<lparr>MaxDepth = 1, MaxKeys = 8\<rparr>) ''a.b'' = Some (JNumber 7)
   \<and> map_of (FlattenJSON demo_tree \<lparr>MaxDepth = 1, MaxKeys = 8\<rparr>) ''c[1]''
       = Some (JString ''<max_depth:1>'')"
  using FlattenJSON_cap_and_depth [of demo_tree "\<lparr>MaxDepth = 1, MaxKeys = 8\<rparr>"]
  unfolding demo_tree_entries demo_tree_opts
  by (simp add: AList.update.simps)

section \<open>The structured-data encoder\<close>

lemma sd_preferred_eq:
  "sd_preferred kv ks (b, seen) =
     (b @ concat (map (\<lambda>k. write_param k (the (map_of kv k))) (filter (sd_present kv) ks)),
      rev (filter (sd_present kv) ks) @ seen)"
  by (induction ks arbitrary: b seen) (auto simp: sd_present_def split: option.splits)

lemma sd_extraKeys_eq:
  "sd_extraKeys kv seen ks = filter (\<lambda>k. k \<notin> set seen \<and> sd_present kv k) ks"
  by (induction ks) (auto simp: sd_present_def split: option.splits)

lemma sd_write_extra_eq:
  "\<forall>k \<in> set ks. sd_present kv k \<Longrightarrow>
   sd_write_extra kv ks b = b @ concat (map (\<lambda>k. write_param k (the (map_of kv k))) ks)"
  by (induction ks arbitrary: b) (auto simp: sd_present_def split: option.splits)

lemma sd_present_key: "sd_present kv k \<Longrightarrow> k \<in> fst ` set kv"
  by (auto simp: sd_present_def split: option.splits dest: map_of_SomeD intro: rev_image_eqI)

lemma sort_filter_remdups:
  "sort (filter P (remdups xs)) = sorted_list_of_set {x \<in> set xs. P x}"
proof -
  have "sorted_list_of_set (set (filter P (remdups xs))) = sort (remdups (filter P (remdups xs)))"
    by (rule sorted_list_of_set_sort_remdups)
  moreover have "remdups (filter P (remdups xs)) = filter P (remdups xs)"
    by (simp add: distinct_remdups_id)
  moreover have "set (filter P (remdups xs)) = {x \<in> set xs. P x}" by auto
  ultimately show ?thesis by simp
qed

lemma extra_keys_sorted:
  "sort (sd_extraKeys kv (rev (filter (sd_present kv) preferredOrder)) (remdups (map fst kv)))
     = sorted_list_of_set {k. sd_present kv k \<and> k \<notin> set preferredOrder}"
proof -
  have "{x \<in> set (map fst kv). x \<notin> set (rev (filter (sd_present kv) preferredOrder)) \<and> sd_present kv x}
        = {k. sd_present kv k \<and> k \<notin> set preferredOrder}"
    using sd_present_key[of kv] by auto
  then show ?thesis
    by (simp only: sd_extraKeys_eq sort_filter_remdups)
qed

lemma finite_present: "finite {k. sd_present kv k \<and> k \<notin> set preferredOrder}"
proof (rule finite_subset)
  show "{k. sd_present kv k \<and> k \<notin> set preferredOrder} \<subseteq> fst ` set kv"
    using sd_present_key[of kv] by auto
qed simp

text \<open>
  Claim C6, as amended: the tenth preferred key is \<open>cccc\<close>. The encoder writes the
  bracket, the id (\<open>cndp\<close> for an empty id), one parameter for each key of
  \<open>sd_key_order\<close> in that order, and the closing bracket. The keys written are exactly
  the keys with a value in which some rune is not white space (so not the keys with an
  empty value), each once; those after the preferred ones are in ascending order.
\<close>

theorem buildStructuredData_key_order:
  "buildStructuredData sdID kv =
     ''['' @ (if sdID = [] then ''cndp'' else sdID)
     @ concat (map (\<lambda>k. write_param k (the (map_of kv k))) (sd_key_order kv)) @ '']''
   \<and> set (sd_key_order kv) = {k. \<exists>v. map_of kv k = Some v \<and> \<not> list_all IsSpace (Runes v)}
   \<and> distinct (sd_key_order kv)
   \<and> sorted (drop (length (filter (sd_present kv) preferredOrder)) (sd_key_order kv))"
proof -
  let ?extra = "sorted_list_of_set {k. sd_present kv k \<and> k \<notin> set preferredOrder}"
  have pres: "\<forall>k \<in> set ?extra. sd_present kv k"
    using finite_present[of kv] by simp
  have 1: "buildStructuredData sdID kv =
     ''['' @ (if sdID = [] then ''cndp'' else sdID)
     @ concat (map (\<lambda>k. write_param k (the (map_of kv k))) (sd_key_order kv)) @ '']''"
    by (simp add: buildStructuredData_def Let_def sd_preferred_eq extra_keys_sorted
          sd_write_extra_eq[OF pres] sd_key_order_def)
  have 2: "set (sd_key_order kv) = {k. \<exists>v. map_of kv k = Some v \<and> \<not> list_all IsSpace (Runes v)}"
    using finite_present[of kv]
    by (auto simp: sd_key_order_def sd_present_def TrimSpace_blank split: option.splits)
  have "distinct preferredOrder" by (simp add: preferredOrder_def)
  then have 3: "distinct (sd_key_order kv)"
    using finite_present[of kv] by (auto simp: sd_key_order_def)
  have 4: "sorted (drop (length (filter (sd_present kv) preferredOrder)) (sd_key_order kv))"
    by (simp add: sd_key_order_def)
  from 1 2 3 4 show ?thesis by blast
qed

theorem buildStructuredData_key_order_witness:
  "buildStructuredData [] demo_kv
     = ''[cndp job=\"mhdbs\" service=\"alerts\" filename=\"f.warn\" cccc=\"none\" aaa=\"1\" zzz=\"3\"]''
   \<and> ''[cndp job=\"mhdbs\" service=\"alerts\" filename=\"f.warn\" cccc=\"none\" aaa=\"1\" zzz=\"3\"]''
     = ''[cndp'' @ concat (map (\<lambda>k. write_param k (the (map_of demo_kv k))) (sd_key_order demo_kv)) @ '']''
   \<and> distinct (sd_key_order demo_kv)"
proof -
  have a: "buildStructuredData [] demo_kv
     = ''[cndp job=\"mhdbs\" service=\"alerts\" filename=\"f.warn\" cccc=\"none\" aaa=\"1\" zzz=\"3\"]''"
    by code_simp
  show ?thesis
    using buildStructuredData_key_order[of "[]" demo_kv] a by simp
qed

text \<open>
  Claim C6 as stated names \<open>tag\<close> among the preferred keys, before \<open>replay\<close>. The
  encoder treats \<open>tag\<close> as an extra key and writes it after \<open>replay\<close>.
\<close>

theorem buildStructuredData_tag_counterexample:
  "buildStructuredData [] [(''tag'', ''x''), (''replay'', ''true'')]
     = ''[cndp replay=\"true\" tag=\"x\"]''
   \<and> filter (sd_present [(''tag'', ''x''), (''replay'', ''true'')]) claimed_preferredOrder
     = [''tag'', ''replay'']"
  by code_simp


section \<open>The normalizer\<close>

text \<open>
  Claim C5. The pattern with a space and a sub-second fraction is the fifth of the list,
  after the pattern without the fraction, which is the first. On a text with such a
  timestamp the first pattern removes the part up to the seconds and the fraction stays
  in the normalized text, although the fifth pattern alone removes the whole timestamp.
\<close>

theorem NormalizeText_subsecond_residue:
  "NormalizeText ''2025-06-01 15:30:00.123 foo error'' = ''.123 foo error''
   \<and> rx_remove_all (timestampPatterns ! 0) ''2025-06-01 15:30:00.123 foo error''
       = ''.123 foo error''
   \<and> rx_remove_all (timestampPatterns ! 4) ''2025-06-01 15:30:00.123 foo error''
       = '' foo error''"
  by code_simp

section \<open>The constructor\<close>

lemma ensureDBForNow_cfg:
  "cfg (fst (snd (ensureDBForNow e r w))) = cfg r \<or>
   cfg (fst (snd (ensureDBForNow e r w))) = (cfg r)\<lparr>DBPrefix := ''alerts_''\<rparr>"
  by (simp add: ensureDBForNow_def Let_def Close_def split: option.splits prod.splits)

lemma RunOnce_body_runner:
  "fst (snd (RunOnce_body e r dl w)) = fst (snd (ensureDBForNow e r w))"
  by (simp add: RunOnce_body_def split: prod.splits option.splits)

lemma RunOnce_runner:
  "fst (snd (RunOnce e r w)) = fst (snd (ensureDBForNow e r w))"
proof (cases "RunOnce_body e r (cycle_deadline r w) w")
  case (fields runErr r1 w1 st1)
  then show ?thesis
    using RunOnce_body_runner[of e r "cycle_deadline r w" w]
    by (simp add: RunOnce_def Let_def)
qed

text \<open>
  Claim C10. A runner returned by \<open>NewRunner\<close> has \<open>DeleteAfterSend\<close> set, whatever the
  configuration passed in said, and a work cycle leaves it set.
\<close>

theorem NewRunner_DeleteAfterSend:
  assumes "NewRunner e c w = (Inr r, w')"
  shows "DeleteAfterSend (cfg r) \<and> DeleteAfterSend (cfg (fst (snd (RunOnce e' r w1))))"
proof -
  let ?c1 = "if ServiceLabel c = [] then c\<lparr>ServiceLabel := ''alerts''\<rparr> else c"
  let ?c2 = "if HashHexLen ?c1 \<le> 0 then ?c1\<lparr>HashHexLen := 24\<rparr> else ?c1"
  let ?c3 = "if \<not> DeleteAfterSend ?c2 then ?c2\<lparr>DeleteAfterSend := True\<rparr> else ?c2"
  let ?r0 = "\<lparr>cfg = ?c3, db = None, dbKey = []\<rparr>"
  have c3: "DeleteAfterSend ?c3" by simp
  have "fst (snd (ensureDBForNow e ?r0 w)) = r"
    using assms
    by (simp add: NewRunner_def Let_def split: if_splits option.splits prod.splits)
  then have a: "DeleteAfterSend (cfg r)"
    using ensureDBForNow_cfg[of e ?r0 w] c3 by auto
  show ?thesis
    using a ensureDBForNow_cfg[of e' r w1] by (auto simp: RunOnce_runner)
qed

lemma demo_NewRunner: "fst (NewRunner (demo_env 0) demo_cfg demo_world) = Inr demo_runner"
  by code_simp

theorem NewRunner_DeleteAfterSend_witness:
  "\<not> DeleteAfterSend demo_cfg \<and> fst (NewRunner (demo_env 0) demo_cfg demo_world) = Inr demo_runner
   \<and> DeleteAfterSend (cfg demo_runner)
   \<and> DeleteAfterSend (cfg (fst (snd (RunOnce (demo_env 0) demo_runner demo_world))))"
proof -
  have h: "NewRunner (demo_env 0) demo_cfg demo_world
             = (Inr demo_runner, snd (NewRunner (demo_env 0) demo_cfg demo_world))"
    using demo_NewRunner by (simp add: prod_eq_iff)
  have "\<not> DeleteAfterSend demo_cfg" by (simp add: demo_cfg_def)
  then show ?thesis
    using NewRunner_DeleteAfterSend[OF h, of "demo_env 0" demo_world] demo_NewRunner by simp
qed


section \<open>Timeouts and the heartbeat\<close>

lemma syslog_send_calls: "calls (snd (syslog_send e c w)) = calls w @ [c]"
  by (simp add: syslog_send_def Let_def)

lemma remainingTimeout_passed:
  "isDeadlineExceeded now dl \<Longrightarrow> remainingTimeout now dl fallback = Millisecond"
  by (auto simp: isDeadlineExceeded_def remainingTimeout_def Let_def split: option.splits)

lemma RunOnce_unfold:
  assumes "RunOnce_body e r (cycle_deadline r w) w = (runErr, r1, w1, st1)"
  shows "RunOnce e r w =
           (runErr, r1,
            if TrimSpace (DeadmanToken (cfg r1)) = [] then w1
            else snd (sendDeadman e (cfg r1) (cycle_deadline r w) (clock w) (clock w1) st1 runErr w1))"
  using assms by (simp add: RunOnce_def Let_def)

text \<open>
  Claim C7, as amended. With a positive ceiling the timeout of a send is the smaller of
  the ceiling and the time left to the deadline while time is left, and one millisecond
  otherwise. When a heartbeat token is configured the cycle ends with the heartbeat send,
  whatever the body returned; its timeout is computed in the same way, so it is exactly
  one millisecond when the deadline has passed.
\<close>

theorem remainingTimeout_min_and_heartbeat:
  assumes body: "RunOnce_body e r (cycle_deadline r w) w = (runErr, r1, w1, st1)"
      and token: "TrimSpace (DeadmanToken (cfg r1)) \<noteq> []"
      and ceil: "0 < ceiling"
  shows "remainingTimeout now (Some d) ceiling
           = (if 0 < d - now then min ceiling (d - now) else 1 * Millisecond)
       \<and> (\<exists>hb m. calls (snd (snd (RunOnce e r w))) = calls w1 @ [hb]
             \<and> msg hb = DeadmanPayload m
             \<and> dm_status m = (if runErr = None then ''ok'' else ''error'')
             \<and> timeoutArgument hb = remainingTimeout (clock w1) (cycle_deadline r w) (3 * Second)
             \<and> (isDeadlineExceeded (clock w1) (cycle_deadline r w)
                  \<longrightarrow> timeoutArgument hb = 1 * Millisecond))"
proof -
  have 1: "remainingTimeout now (Some d) ceiling
           = (if 0 < d - now then min ceiling (d - now) else 1 * Millisecond)"
    using ceil by (auto simp: remainingTimeout_def Let_def)
  let ?dl = "cycle_deadline r w"
  let ?m = "\<lparr>dm_deadman = DeadmanToken (cfg r1),
             dm_status = (if runErr = None then ''ok'' else ''error''),
             dm_error = (case runErr of None \<Rightarrow> [] | Some m \<Rightarrow> m),
             dm_started_at = clock w, dm_ended_at = clock w1, dm_stats = st1\<rparr>"
  let ?hb = "\<lparr>appName = ''alert-spooler'',
              structuredData = buildStructuredData ''cndp'' (deadman_kv (cfg r1)),
              msg = DeadmanPayload ?m,
              timeoutArgument = remainingTimeout (clock w1) ?dl (3 * Second)\<rparr>"
  have "calls (snd (snd (RunOnce e r w))) = calls w1 @ [?hb]"
    using token by (simp add: RunOnce_unfold[OF body] sendDeadman_def Let_def syslog_send_calls)
  moreover have "isDeadlineExceeded (clock w1) ?dl \<longrightarrow> timeoutArgument ?hb = 1 * Millisecond"
    by (simp add: remainingTimeout_passed)
  ultimately have 2: "\<exists>hb m. calls (snd (snd (RunOnce e r w))) = calls w1 @ [hb]
             \<and> msg hb = DeadmanPayload m
             \<and> dm_status m = (if runErr = None then ''ok'' else ''error'')
             \<and> timeoutArgument hb = remainingTimeout (clock w1) ?dl (3 * Second)
             \<and> (isDeadlineExceeded (clock w1) ?dl \<longrightarrow> timeoutArgument hb = 1 * Millisecond)"
    by (intro exI[of _ ?hb] exI[of _ ?m]) simp
  from 1 2 show ?thesis by blast
qed

text \<open>
  Claim C7 as stated gives the heartbeat a timeout below one millisecond after the
  deadline; the timeout is one millisecond.
\<close>

theorem remainingTimeout_passed_counterexample:
  "isDeadlineExceeded 10 (Some 5) \<and> remainingTimeout 10 (Some 5) (3 * Second) = 1000000
   \<and> \<not> remainingTimeout 10 (Some 5) (3 * Second) < Millisecond"
  by (simp add: isDeadlineExceeded_def remainingTimeout_def Millisecond_def Second_def)

lemma hasty_body:
  "fst (RunOnce_body (demo_env 0) hasty_runner (Some 1003) demo_world) = Some ''timeout exceeded''
   \<and> cfg (fst (snd (RunOnce_body (demo_env 0) hasty_runner (Some 1003) demo_world))) = cfg hasty_runner
   \<and> clock (fst (snd (snd (RunOnce_body (demo_env 0) hasty_runner (Some 1003) demo_world)))) = 1005"
  by code_simp

lemma hasty_token: "TrimSpace (DeadmanToken (cfg hasty_runner)) \<noteq> []"
  by code_simp

theorem remainingTimeout_min_and_heartbeat_witness:
  "remainingTimeout 1000 (Some 1003) (3 * Second) = 3
   \<and> fst (RunOnce (demo_env 0) hasty_runner demo_world) = Some ''timeout exceeded''
   \<and> (\<exists>hb. last (calls (snd (snd (RunOnce (demo_env 0) hasty_runner demo_world)))) = hb
          \<and> timeoutArgument hb = 1000000)"
proof -
  let ?b = "RunOnce_body (demo_env 0) hasty_runner (cycle_deadline hasty_runner demo_world) demo_world"
  have dl: "cycle_deadline hasty_runner demo_world = Some 1003"
    by (simp add: cycle_deadline_def hasty_runner_def demo_runner_def demo_world_def)
  have body: "?b = (fst ?b, fst (snd ?b), fst (snd (snd ?b)), snd (snd (snd ?b)))"
    by simp
  have token: "TrimSpace (DeadmanToken (cfg (fst (snd ?b)))) \<noteq> []"
    unfolding dl using hasty_body hasty_token by simp
  have exceeded: "isDeadlineExceeded (clock (fst (snd (snd ?b)))) (cycle_deadline hasty_runner demo_world)"
    unfolding dl using hasty_body by (simp add: isDeadlineExceeded_def)
  have res: "fst (RunOnce (demo_env 0) hasty_runner demo_world) = Some ''timeout exceeded''"
    using RunOnce_unfold[OF body] hasty_body by (simp add: dl)
  have "(0::int) < 3 * Second" by (simp add: Second_def)
  from remainingTimeout_min_and_heartbeat[OF body token this, of 1000 1003] exceeded res
  show ?thesis
    by (auto simp: Millisecond_def Second_def)
qed


end
